theory Spec2Isabelle
  imports Complex_Main "HOL-Library.Sublist"
begin

section \<open>Python values, text and exceptions\<close>

text \<open>
  The two front ends (\<^verbatim>\<open>ui/gradio_app.py\<close>, \<^verbatim>\<open>ui/streamlit_app.py\<close>) work on the
  agent's result, a schema-less Python dictionary (\<^verbatim>\<open>Dict[str, Any]\<close>). The embedding
  keeps it so: a JSON-like value type, dictionaries as association lists in insertion
  order, and every built-in operation the source applies to such a value written with
  the exception it raises on a value of the wrong shape.

  Text is \<^typ>\<open>string\<close>, one \<^typ>\<open>char\<close> per character: the code points \<open>U+0000\<close> to
  \<open>U+00FF\<close>. On that range white space is what \<^verbatim>\<open>str.isspace\<close> says it is. The two
  marks that the source writes beyond the range are carried as their UTF-8 bytes. A
  Python \<^verbatim>\<open>float\<close> is read as the real number it denotes: \<^verbatim>\<open>/\<close> and \<^verbatim>\<open>*\<close> are exact,
  rounding is modelled only where an integer is converted to a float.

  What lies outside the two files is a parameter of the functions that use it: the agent
  (\<open>create_agent\<close> and the agent's \<^verbatim>\<open>invoke\<close>), the clock (\<open>now\<close>, the text of the time as the
  source formats it), the interpreter's text of a float or of a container (\<open>rp\<close>,
  \<open>fr\<close>, \<open>fp\<close>), and \<^verbatim>\<open>str.title\<close> (\<open>tt\<close>), whose case mapping is the Unicode
  database's and leaves the range. The pages that Streamlit draws from a result
  (\<^verbatim>\<open>render_research_results\<close>, built on the widgets and the charts of three libraries)
  are the parameter \<open>render\<close>: a call that returns or raises. The widgets themselves and
  the progress display are not modelled.
\<close>

datatype exc_kind = AttributeError | KeyError | IndexError | TypeError | ValueError
  | ZeroDivisionError | OverflowError | AgentInvocationError

text \<open>An exception: its class and the text that \<^verbatim>\<open>str(e)\<close> gives.\<close>

datatype py_error = Raise exc_kind string

fun str_exc :: "py_error \<Rightarrow> string" where
  "str_exc (Raise k msg) = msg"

definition bind_err :: "py_error + 'a \<Rightarrow> ('a \<Rightarrow> py_error + 'b) \<Rightarrow> py_error + 'b" where
  "bind_err m f = (case m of Inl e \<Rightarrow> Inl e | Inr x \<Rightarrow> f x)"

subsection \<open>Text\<close>

definition digit_char :: "nat \<Rightarrow> char" where
  "digit_char d = ''0123456789'' ! d"

text \<open>\<^verbatim>\<open>str(n)\<close> of a non-negative integer, then of any integer.\<close>

function str_nat :: "nat \<Rightarrow> string" where
  "str_nat n = (if n < 10 then [digit_char n] else str_nat (n div 10) @ [digit_char (n mod 10)])"
  by pat_completeness auto
termination
  by (relation "measure id") auto

declare str_nat.simps [simp del]

definition str_int :: "int \<Rightarrow> string" where
  "str_int i = (if i < 0 then CHR ''-'' # str_nat (nat (- i)) else str_nat (nat i))"

text \<open>\<^verbatim>\<open>str.isspace\<close> on one character: tab to carriage return, the four separators
  \<open>0x1C\<close> to \<open>0x1F\<close>, the blank, the next-line control \<open>U+0085\<close> and the no-break space
  \<open>U+00A0\<close>. These twelve are all the white space below \<open>U+0100\<close>.\<close>

definition py_isspace :: "char \<Rightarrow> bool" where
  "py_isspace c = (c \<in> set [CHR 0x09, CHR 0x0A, CHR 0x0B, CHR 0x0C, CHR 0x0D,
                             CHR 0x1C, CHR 0x1D, CHR 0x1E, CHR 0x1F, CHR 0x20,
                             CHR 0x85, CHR 0xA0])"

text \<open>\<^verbatim>\<open>s.strip()\<close>: the white space at both ends is removed.\<close>

definition py_strip :: "string \<Rightarrow> string" where
  "py_strip s = rev (dropWhile py_isspace (rev (dropWhile py_isspace s)))"

text \<open>\<^verbatim>\<open>s.startswith(p)\<close>\<close>

definition py_startswith :: "string \<Rightarrow> string \<Rightarrow> bool" where
  "py_startswith s p = prefix p s"

text \<open>The first occurrence of \<open>sep\<close> in \<open>s\<close>, scanning from the left: the text before
  it and the text after it (\<^verbatim>\<open>s.partition(sep)\<close> without the separator).\<close>

fun split_first :: "string \<Rightarrow> string \<Rightarrow> (string \<times> string) option" where
  "split_first sep [] = (if sep = [] then Some ([], []) else None)"
| "split_first sep (c # cs) =
     (if prefix sep (c # cs) then Some ([], drop (length sep) (c # cs))
      else (case split_first sep cs of None \<Rightarrow> None | Some (b, a) \<Rightarrow> Some (c # b, a)))"


text \<open>The pieces of \<^verbatim>\<open>s.split(sep)\<close> for a non-empty separator: non-overlapping
  occurrences, found from the left.\<close>

function splits :: "string \<Rightarrow> string \<Rightarrow> string list" where
  "splits sep s =
     (if sep = [] then [s]
      else (case split_first sep s of None \<Rightarrow> [s] | Some (b, a) \<Rightarrow> b # splits sep a))"
  by pat_completeness auto
termination
proof (relation "measure (\<lambda>(sep, s). length s)")
  show "wf (measure (\<lambda>(sep, s). length s))"
    by simp
next
  fix sep s :: string and x b a
  assume sep: "sep \<noteq> []" and found: "split_first sep s = Some x" and x: "(b, a) = x"
  have shorter: "split_first sep t = Some (b', a') \<Longrightarrow> length a' < length t" for t b' a'
  proof (induction t arbitrary: b')
    case Nil
    with sep show ?case by simp
  next
    case (Cons c cs)
    show ?case
    proof (cases "prefix sep (c # cs)")
      case True
      with Cons.prems sep show ?thesis by (cases sep) auto
    next
      case False
      with Cons.prems obtain b2 where "split_first sep cs = Some (b2, a')"
        by (auto split: option.splits)
      with Cons.IH show ?thesis by fastforce
    qed
  qed
  from found x shorter [of s b a] show "((sep, a), sep, s) \<in> measure (\<lambda>(sep, s). length s)"
    by simp
qed

declare splits.simps [simp del]

text \<open>\<^verbatim>\<open>s.split(sep)\<close>: an empty separator is a \<^verbatim>\<open>ValueError\<close>.\<close>

definition py_split :: "string \<Rightarrow> string \<Rightarrow> py_error + string list" where
  "py_split s sep = (if sep = [] then Inl (Raise ValueError ''empty separator'') else Inr (splits sep s))"

text \<open>\<^verbatim>\<open>xs[i]\<close> on a list of pieces, for a non-negative literal index.\<close>

definition py_index :: "'a list \<Rightarrow> nat \<Rightarrow> py_error + 'a" where
  "py_index xs i = (if i < length xs then Inr (xs ! i) else Inl (Raise IndexError ''list index out of range''))"

subsection \<open>Values\<close>

datatype pyval = PNone | PBool bool | PInt int | PFloat real | PStr string
  | PList "pyval list" | PDict "(string \<times> pyval) list"

fun type_name :: "pyval \<Rightarrow> string" where
  "type_name PNone = ''NoneType''"
| "type_name (PBool b) = ''bool''"
| "type_name (PInt i) = ''int''"
| "type_name (PFloat x) = ''float''"
| "type_name (PStr s) = ''str''"
| "type_name (PList xs) = ''list''"
| "type_name (PDict kvs) = ''dict''"

text \<open>The single quote, for the texts of exceptions.\<close>

definition sq :: string where
  "sq = [CHR 0x27]"

text \<open>Truth value of an object, as \<^verbatim>\<open>if x:\<close> tests it.\<close>

fun py_truthy :: "pyval \<Rightarrow> bool" where
  "py_truthy PNone = False"
| "py_truthy (PBool b) = b"
| "py_truthy (PInt i) = (i \<noteq> 0)"
| "py_truthy (PFloat x) = (x \<noteq> 0)"
| "py_truthy (PStr s) = (s \<noteq> [])"
| "py_truthy (PList xs) = (xs \<noteq> [])"
| "py_truthy (PDict kvs) = (kvs \<noteq> [])"

text \<open>\<^verbatim>\<open>d.get(k, default)\<close>: only a dictionary has the method.\<close>

fun py_get :: "pyval \<Rightarrow> string \<Rightarrow> pyval \<Rightarrow> py_error + pyval" where
  "py_get (PDict kvs) k dflt = Inr (case map_of kvs k of None \<Rightarrow> dflt | Some v \<Rightarrow> v)"
| "py_get v k dflt =
     Inl (Raise AttributeError (sq @ type_name v @ sq @ '' object has no attribute '' @ sq @ ''get'' @ sq))"

text \<open>\<^verbatim>\<open>d[k]\<close> with a string key.\<close>

fun py_getitem :: "pyval \<Rightarrow> string \<Rightarrow> py_error + pyval" where
  "py_getitem (PDict kvs) k =
     (case map_of kvs k of None \<Rightarrow> Inl (Raise KeyError (sq @ k @ sq)) | Some v \<Rightarrow> Inr v)"
| "py_getitem (PList xs) k = Inl (Raise TypeError ''list indices must be integers or slices, not str'')"
| "py_getitem (PStr s) k = Inl (Raise TypeError ''string indices must be integers'')"
| "py_getitem v k = Inl (Raise TypeError (sq @ type_name v @ sq @ '' object is not subscriptable''))"

text \<open>\<^verbatim>\<open>d.items()\<close>, in insertion order.\<close>

fun py_items :: "pyval \<Rightarrow> py_error + (string \<times> pyval) list" where
  "py_items (PDict kvs) = Inr kvs"
| "py_items v =
     Inl (Raise AttributeError (sq @ type_name v @ sq @ '' object has no attribute '' @ sq @ ''items'' @ sq))"

text \<open>The elements a \<^verbatim>\<open>for\<close> loop visits.\<close>

fun py_iter :: "pyval \<Rightarrow> py_error + pyval list" where
  "py_iter (PList xs) = Inr xs"
| "py_iter (PStr s) = Inr (map (\<lambda>c. PStr [c]) s)"
| "py_iter (PDict kvs) = Inr (map (\<lambda>kv. PStr (fst kv)) kvs)"
| "py_iter v = Inl (Raise TypeError (sq @ type_name v @ sq @ '' object is not iterable''))"

text \<open>\<^verbatim>\<open>len(x)\<close>\<close>

fun py_len :: "pyval \<Rightarrow> py_error + nat" where
  "py_len (PList xs) = Inr (length xs)"
| "py_len (PStr s) = Inr (length s)"
| "py_len (PDict kvs) = Inr (length kvs)"
| "py_len v = Inl (Raise TypeError (''object of type '' @ sq @ type_name v @ sq @ '' has no len()''))"

text \<open>
  \<^verbatim>\<open>str(x)\<close>, which an f-string field without a format applies. The text of a float
  and of a container (their \<^verbatim>\<open>repr\<close>) is the interpreter's and is taken as the
  parameter \<open>rp\<close>.
\<close>

fun py_str :: "(pyval \<Rightarrow> string) \<Rightarrow> pyval \<Rightarrow> string" where
  "py_str rp PNone = ''None''"
| "py_str rp (PBool b) = (if b then ''True'' else ''False'')"
| "py_str rp (PInt i) = str_int i"
| "py_str rp (PStr s) = s"
| "py_str rp v = rp v"

text \<open>Rounding to the nearest integer, ties to the even one.\<close>

definition round_half_even :: "real \<Rightarrow> int" where
  "round_half_even y =
     (let f = \<lfloor>y\<rfloor>; d = y - of_int f
      in if d < 1 / 2 then f else if 1 / 2 < d then f + 1 else if even f then f else f + 1)"

text \<open>A number with two decimals, as the format \<^verbatim>\<open>.2f\<close> prints it.\<close>

definition fixed2 :: "real \<Rightarrow> string" where
  "fixed2 x =
     (let h = nat (round_half_even (\<bar>x\<bar> * 100))
      in (if x < 0 then ''-'' else []) @ str_nat (h div 100) @ ''.'' @
         [digit_char (h div 10 mod 10), digit_char (h mod 10)])"

text \<open>The number of binary digits of a natural number (\<^verbatim>\<open>int.bit_length\<close>).\<close>

function bit_length :: "nat \<Rightarrow> nat" where
  "bit_length n = (if n = 0 then 0 else Suc (bit_length (n div 2)))"
  by pat_completeness auto
termination
  by (relation "measure id") auto

declare bit_length.simps [simp del]

text \<open>
  \<^verbatim>\<open>float(i)\<close> for an integer, which the format \<^verbatim>\<open>.2f\<close> applies first: the nearest
  number with 53 significant binary digits, a tie going to the even one, and an
  \<^verbatim>\<open>OverflowError\<close> when that number is \<open>2 ^ 1024\<close> or more.
\<close>

definition float_of_int :: "int \<Rightarrow> py_error + real" where
  "float_of_int i =
     (let a = nat \<bar>i\<bar>;
          shift = bit_length a - 53;
          q = a div 2 ^ shift;
          r = a mod 2 ^ shift;
          m = (if 2 ^ shift < 2 * r \<or> (2 * r = 2 ^ shift \<and> odd q) then q + 1 else q) * 2 ^ shift
      in if 2 ^ 1024 \<le> m then Inl (Raise OverflowError ''int too large to convert to float'')
         else Inr (if i < 0 then - real m else real m))"

text \<open>\<^verbatim>\<open>f"{x:.2f}"\<close>: numbers only, an integer by way of \<^verbatim>\<open>float\<close>; a string is a
  \<^verbatim>\<open>ValueError\<close>, any other object a \<^verbatim>\<open>TypeError\<close>.\<close>

fun format_2f :: "pyval \<Rightarrow> py_error + string" where
  "format_2f (PBool b) = Inr (fixed2 (if b then 1 else 0))"
| "format_2f (PInt i) = bind_err (float_of_int i) (\<lambda>x. Inr (fixed2 x))"
| "format_2f (PFloat x) = Inr (fixed2 x)"
| "format_2f (PStr s) =
     Inl (Raise ValueError (''Unknown format code '' @ sq @ ''f'' @ sq @ '' for object of type '' @ sq @ ''str'' @ sq))"
| "format_2f v =
     Inl (Raise TypeError (''unsupported format string passed to '' @ type_name v @ ''.__format__''))"

text \<open>\<^verbatim>\<open>s.replace(a, b)\<close> for single characters.\<close>

definition py_replace_char :: "char \<Rightarrow> char \<Rightarrow> string \<Rightarrow> string" where
  "py_replace_char a b s = map (\<lambda>c. if c = a then b else c) s"

text \<open>\<^verbatim>\<open>xs[-n:]\<close> for a literal \<open>n\<close>: the last \<open>n\<close> elements, or all of them when there
  are fewer; a slice never raises.\<close>

definition py_slice_last :: "nat \<Rightarrow> 'a list \<Rightarrow> 'a list" where
  "py_slice_last n xs = (if n = 0 then xs else drop (length xs - n) xs)"

text \<open>\<^verbatim>\<open>s[:n]\<close>\<close>

definition py_slice_to :: "nat \<Rightarrow> 'a list \<Rightarrow> 'a list" where
  "py_slice_to n xs = take n xs"

definition nl :: string where
  "nl = [CHR 0x0A]"

section \<open>The Gradio interface (\<^verbatim>\<open>ui/gradio_app.py\<close>)\<close>

subsection \<open>\<^verbatim>\<open>conduct_research\<close>: the three summaries\<close>

text \<open>The loop \<^verbatim>\<open>for i, step in enumerate(research_plan, 1)\<close>, appending one numbered
  line per step.\<close>

fun plan_lines :: "(pyval \<Rightarrow> string) \<Rightarrow> nat \<Rightarrow> pyval list \<Rightarrow> string \<Rightarrow> string" where
  "plan_lines rp i [] acc = acc"
| "plan_lines rp i (step # steps) acc =
     plan_lines rp (Suc i) steps (acc @ str_nat i @ ''. '' @ py_str rp step @ nl)"

text \<open>\<^verbatim>\<open>sum(1 for f in findings if f.get('external_research'))\<close>\<close>

fun count_external :: "pyval list \<Rightarrow> py_error + nat" where
  "count_external [] = Inr 0"
| "count_external (f # fs) =
     bind_err (py_get f ''external_research'' PNone) (\<lambda>v.
     bind_err (count_external fs) (\<lambda>n.
     Inr ((if py_truthy v then 1 else 0) + n)))"

definition process_summary :: "(pyval \<Rightarrow> string) \<Rightarrow> pyval \<Rightarrow> py_error + string" where
  "process_summary rp result =
     bind_err (py_get result ''research_plan'' (PList [])) (\<lambda>research_plan.
     bind_err (py_get result ''findings'' (PList [])) (\<lambda>findings.
     bind_err (py_iter research_plan) (\<lambda>steps.
     bind_err (py_len findings) (\<lambda>n.
     bind_err (py_iter findings) (\<lambda>fs.
     bind_err (count_external fs) (\<lambda>k.
     Inr (plan_lines rp 1 steps (''## Research Process'' @ nl @ nl @ ''### Research Plan:'' @ nl)
          @ nl @ ''### Findings Summary:'' @ nl
          @ ''- Total research steps completed: '' @ str_nat n @ nl
          @ ''- External sources consulted: '' @ str_nat k @ nl)))))))"

text \<open>The loop over the hypotheses: \<^verbatim>\<open>hyp['statement']\<close>, \<^verbatim>\<open>hyp['type']\<close> and
  \<^verbatim>\<open>hyp['confidence']\<close> are subscripts, so a missing key raises.\<close>

fun hypothesis_lines :: "(pyval \<Rightarrow> string) \<Rightarrow> nat \<Rightarrow> pyval list \<Rightarrow> string \<Rightarrow> py_error + string" where
  "hypothesis_lines rp i [] acc = Inr acc"
| "hypothesis_lines rp i (hyp # hyps) acc =
     bind_err (py_getitem hyp ''statement'') (\<lambda>statement.
     bind_err (py_getitem hyp ''type'') (\<lambda>ty.
     bind_err (py_getitem hyp ''confidence'') (\<lambda>confidence.
     bind_err (format_2f confidence) (\<lambda>c.
     hypothesis_lines rp (Suc i) hyps
       (acc @ str_nat i @ ''. **'' @ py_str rp statement @ ''**'' @ nl
            @ ''   - Type: '' @ py_str rp ty @ nl
            @ ''   - Confidence: '' @ c @ nl @ nl)))))"

definition intelligence_summary :: "(pyval \<Rightarrow> string) \<Rightarrow> pyval \<Rightarrow> py_error + string" where
  "intelligence_summary rp result =
     bind_err (py_get result ''multi_agent_analysis'' (PDict [])) (\<lambda>multi_agent_analysis.
     bind_err
       (if py_truthy multi_agent_analysis then
          bind_err (py_get multi_agent_analysis ''confidence_scores'' (PDict [])) (\<lambda>confidence_scores.
          bind_err (py_get confidence_scores ''researcher_avg'' (PInt 0)) (\<lambda>r.
          bind_err (format_2f r) (\<lambda>rs.
          bind_err (py_get confidence_scores ''critic_avg'' (PInt 0)) (\<lambda>c.
          bind_err (format_2f c) (\<lambda>cs.
          bind_err (py_get confidence_scores ''synthesis_confidence'' (PInt 0)) (\<lambda>y.
          bind_err (format_2f y) (\<lambda>ys.
          Inr (''## Intelligence Analysis'' @ nl @ nl
               @ ''### Multi-Agent Collaboration:'' @ nl
               @ ''- Researcher Confidence: '' @ rs @ nl
               @ ''- Critic Confidence: '' @ cs @ nl
               @ ''- Synthesizer Confidence: '' @ ys @ nl))))))))
        else Inr (''## Intelligence Analysis'' @ nl @ nl)) (\<lambda>summary.
     bind_err (py_get result ''hypotheses'' (PList [])) (\<lambda>hypotheses.
     if py_truthy hypotheses then
       bind_err (py_iter hypotheses) (\<lambda>hyps.
       hypothesis_lines rp 1 hyps (summary @ nl @ ''### Generated Hypotheses:'' @ nl))
     else Inr summary)))"

text \<open>The two marks of the quality indicators, \<open>U+2705\<close> and \<open>U+274C\<close>, as their UTF-8
  bytes.\<close>

definition icon_yes :: string where
  "icon_yes = [CHR 0xE2, CHR 0x9C, CHR 0x85]"

definition icon_no :: string where
  "icon_no = [CHR 0xE2, CHR 0x9D, CHR 0x8C]"

text \<open>The loop over the quality indicators; \<open>tt\<close> is \<^verbatim>\<open>str.title\<close>.\<close>

fun indicator_lines :: "(string \<Rightarrow> string) \<Rightarrow> (string \<times> pyval) list \<Rightarrow> string \<Rightarrow> string" where
  "indicator_lines tt [] acc = acc"
| "indicator_lines tt ((indicator, status) # rest) acc =
     indicator_lines tt rest
       (acc @ (if py_truthy status then icon_yes else icon_no) @ '' ''
            @ tt (py_replace_char (CHR ''_'') (CHR '' '') indicator) @ nl)"

text \<open>
  The quality summary of \<^verbatim>\<open>conduct_research\<close>, from the value of
  \<^verbatim>\<open>result.get("quality_assessment", {})\<close>. The fields are formatted in the order of the
  source, so the first one that raises decides the exception.
\<close>

definition quality_summary ::
  "(pyval \<Rightarrow> string) \<Rightarrow> (string \<Rightarrow> string) \<Rightarrow> pyval \<Rightarrow> py_error + string" where
  "quality_summary rp tt quality_assessment =
     (if py_truthy quality_assessment then
        bind_err (py_get quality_assessment ''overall_quality_score'' (PStr ''N/A'')) (\<lambda>score.
        bind_err (py_get quality_assessment ''confidence_assessment'' (PStr ''N/A'')) (\<lambda>confidence.
        bind_err (format_2f confidence) (\<lambda>cs.
        bind_err (py_get quality_assessment ''total_findings'' (PInt 0)) (\<lambda>total.
        bind_err (py_get quality_assessment ''external_sources_used'' (PInt 0)) (\<lambda>ext.
        bind_err (py_get quality_assessment ''source_diversity'' (PInt 0)) (\<lambda>diversity.
        bind_err (py_get quality_assessment ''quality_indicators'' (PDict [])) (\<lambda>quality_indicators.
        bind_err (py_items quality_indicators) (\<lambda>items.
        Inr (indicator_lines tt items
               (''## Quality Assessment'' @ nl @ nl
                @ ''- **Overall Quality Score:** '' @ py_str rp score @ ''/10'' @ nl
                @ ''- **Confidence Level:** '' @ cs @ nl
                @ ''- **Total Findings:** '' @ py_str rp total @ nl
                @ ''- **External Sources Used:** '' @ py_str rp ext @ nl
                @ ''- **Source Diversity:** '' @ py_str rp diversity @ nl
                @ nl @ ''### Quality Indicators:'' @ nl))))))))))
      else Inr (''## Quality Assessment'' @ nl @ nl))"

text \<open>The projection on a whole result.\<close>

definition qualitySummary ::
  "(pyval \<Rightarrow> string) \<Rightarrow> (string \<Rightarrow> string) \<Rightarrow> pyval \<Rightarrow> py_error + string" where
  "qualitySummary rp tt result =
     bind_err (py_get result ''quality_assessment'' (PDict [])) (quality_summary rp tt)"

subsection \<open>\<^verbatim>\<open>conduct_research\<close>: the run\<close>

text \<open>
  The agent is outside the repository: an object with one blocking method
  \<^verbatim>\<open>invoke\<close>, which returns the result or raises. \<^verbatim>\<open>create_agent()\<close> may raise too.
  The interface object keeps the agent once created and the history list; the field
  \<open>agent_calls\<close> is a log of the arguments \<^verbatim>\<open>invoke\<close> was called with, kept to state
  when the agent was reached.
\<close>

type_synonym agent = "pyval \<Rightarrow> py_error + pyval"

record gradio_state =
  agent :: "agent option"
  research_history :: "pyval list"
  agent_calls :: "pyval list"

definition initialize_agent :: "(py_error + agent) \<Rightarrow> gradio_state \<Rightarrow> (py_error + agent) \<times> gradio_state" where
  "initialize_agent create_agent s =
     (case agent s of
        Some a \<Rightarrow> (Inr a, s)
      | None \<Rightarrow> (case create_agent of
                  Inl e \<Rightarrow> (Inl e, s)
                | Inr a \<Rightarrow> (Inr a, s\<lparr>agent := Some a\<rparr>)))"

definition initial_state :: "string \<Rightarrow> pyval" where
  "initial_state question = PDict
     [(''messages'', PList []),
      (''research_question'', PStr question),
      (''research_plan'', PList []),
      (''current_step'', PInt 0),
      (''findings'', PList []),
      (''final_answer'', PStr []),
      (''iteration_count'', PInt 0),
      (''hypotheses'', PList []),
      (''multi_agent_analysis'', PDict []),
      (''quality_assessment'', PDict []),
      (''intelligence_insights'', PDict [])]"

text \<open>\<^verbatim>\<open>result.get('quality_assessment', {}).get('overall_quality_score', 'N/A')\<close>\<close>

definition quality_score_of :: "pyval \<Rightarrow> py_error + pyval" where
  "quality_score_of result =
     bind_err (py_get result ''quality_assessment'' (PDict [])) (\<lambda>qa.
     py_get qa ''overall_quality_score'' (PStr ''N/A''))"

definition research_record :: "string \<Rightarrow> pyval \<Rightarrow> string \<Rightarrow> pyval \<Rightarrow> pyval" where
  "research_record question result now quality_score = PDict
     [(''question'', PStr question),
      (''result'', result),
      (''timestamp'', PStr now),
      (''quality_score'', quality_score)]"

text \<open>The formatting part of the \<^verbatim>\<open>try\<close> block, after the history record is stored.\<close>

definition format_results ::
  "(pyval \<Rightarrow> string) \<Rightarrow> (string \<Rightarrow> string) \<Rightarrow> pyval \<Rightarrow>
   py_error + pyval \<times> string \<times> string \<times> string" where
  "format_results rp tt result =
     bind_err (py_get result ''final_answer'' (PStr ''No final answer generated'')) (\<lambda>final_answer.
     bind_err (process_summary rp result) (\<lambda>ps.
     bind_err (intelligence_summary rp result) (\<lambda>isum.
     bind_err (qualitySummary rp tt result) (\<lambda>qs.
     Inr (final_answer, ps, isum, qs)))))"

text \<open>The \<^verbatim>\<open>except Exception as e\<close> branch.\<close>

definition research_failed :: "py_error \<Rightarrow> pyval \<times> string \<times> string \<times> string" where
  "research_failed e = (PStr (''Research failed: '' @ str_exc e), [], [], [])"

text \<open>
  \<^verbatim>\<open>conduct_research(question, ...)\<close>. \<open>now\<close> is the text of
  \<^verbatim>\<open>datetime.now().isoformat()\<close>. The two flags \<^verbatim>\<open>enable_hypothesis\<close> and
  \<^verbatim>\<open>enable_multi_agent\<close> are not read by the source and are left out. The outcome is a
  sum as for every function of the embedding; the source returns from each of its
  branches.
\<close>

definition conduct_research ::
  "(py_error + agent) \<Rightarrow> string \<Rightarrow> (pyval \<Rightarrow> string) \<Rightarrow> (string \<Rightarrow> string) \<Rightarrow> string \<Rightarrow>
   gradio_state \<Rightarrow> (py_error + pyval \<times> string \<times> string \<times> string) \<times> gradio_state" where
  "conduct_research create_agent now rp tt question s =
     (if py_strip question = [] then
        (Inr (PStr ''Please enter a research question.'', [], [], []), s)
      else
        (case initialize_agent create_agent s of
           (Inl e, s1) \<Rightarrow> (Inr (research_failed e), s1)
         | (Inr a, s1) \<Rightarrow>
             (let s2 = s1\<lparr>agent_calls := agent_calls s1 @ [initial_state question]\<rparr>
              in case a (initial_state question) of
                   Inl e \<Rightarrow> (Inr (research_failed e), s2)
                 | Inr result \<Rightarrow>
                     (case quality_score_of result of
                        Inl e \<Rightarrow> (Inr (research_failed e), s2)
                      | Inr quality_score \<Rightarrow>
                          (let s3 = s2\<lparr>research_history := research_history s2 @
                                      [research_record question result now quality_score]\<rparr>
                           in case format_results rp tt result of
                                Inl e \<Rightarrow> (Inr (research_failed e), s3)
                              | Inr out \<Rightarrow> (Inr out, s3))))))"

subsection \<open>\<^verbatim>\<open>get_research_history\<close>\<close>

fun history_lines :: "(pyval \<Rightarrow> string) \<Rightarrow> nat \<Rightarrow> pyval list \<Rightarrow> string \<Rightarrow> py_error + string" where
  "history_lines rp i [] acc = Inr acc"
| "history_lines rp i (research # rest) acc =
     bind_err (py_getitem research ''question'') (\<lambda>q.
     bind_err (py_get research ''quality_score'' (PStr ''N/A'')) (\<lambda>score.
     bind_err (py_get research ''timestamp'' (PStr ''Unknown'')) (\<lambda>ts.
     history_lines rp (Suc i) rest
       (acc @ ''### Research '' @ str_nat i @ nl
            @ ''- **Question:** '' @ py_str rp q @ nl
            @ ''- **Quality Score:** '' @ py_str rp score @ nl
            @ ''- **Timestamp:** '' @ py_str rp ts @ nl @ nl))))"

definition get_research_history :: "(pyval \<Rightarrow> string) \<Rightarrow> gradio_state \<Rightarrow> py_error + string" where
  "get_research_history rp s =
     (if research_history s = [] then Inr ''No research history available.''
      else history_lines rp 1 (py_slice_last 5 (research_history s))
             (''## Recent Research History'' @ nl @ nl))"

subsection \<open>\<^verbatim>\<open>export_research_results\<close>\<close>

text \<open>\<open>now\<close> is the text of \<^verbatim>\<open>datetime.now().strftime('%Y-%m-%d %H:%M:%S')\<close>.\<close>

definition export_research_results :: "string \<Rightarrow> string \<Rightarrow> string \<Rightarrow> string \<Rightarrow> string \<Rightarrow> string" where
  "export_research_results now final_answer process_text intelligence_text quality_text =
     (if final_answer = [] \<or> py_startswith final_answer ''Please enter''
         \<or> py_startswith final_answer ''Research failed''
      then ''No research results to export.''
      else ''# AI Research Agent - Research Report'' @ nl @ nl
           @ ''Generated on: '' @ now @ nl @ nl
           @ ''## Final Answer'' @ nl @ nl
           @ final_answer @ nl @ nl
           @ process_text @ nl @ nl
           @ intelligence_text @ nl @ nl
           @ quality_text @ nl @ nl
           @ ''---'' @ nl @ nl
           @ ''*This report was generated by the AI Research Agent - Phase 5 User Experience*'' @ nl)"

section \<open>The Streamlit interface (\<^verbatim>\<open>ui/streamlit_app.py\<close>)\<close>

subsection \<open>Arithmetic on values\<close>

fun num_val :: "pyval \<Rightarrow> real option" where
  "num_val (PBool b) = Some (if b then 1 else 0)"
| "num_val (PInt i) = Some (of_int i)"
| "num_val (PFloat x) = Some x"
| "num_val v = None"

fun int_val :: "pyval \<Rightarrow> int option" where
  "int_val (PBool b) = Some (if b then 1 else 0)"
| "int_val (PInt i) = Some i"
| "int_val v = None"


text \<open>\<^verbatim>\<open>a * n\<close> for an integer literal \<open>n\<close>: a product of numbers, or the repetition of
  a string or a list.\<close>

fun py_mul :: "pyval \<Rightarrow> int \<Rightarrow> py_error + pyval" where
  "py_mul (PBool b) n = Inr (PInt ((if b then 1 else 0) * n))"
| "py_mul (PInt i) n = Inr (PInt (i * n))"
| "py_mul (PFloat x) n = Inr (PFloat (x * of_int n))"
| "py_mul (PStr s) n = Inr (PStr (concat (replicate (nat n) s)))"
| "py_mul (PList xs) n = Inr (PList (concat (replicate (nat n) xs)))"
| "py_mul v n = Inl (Raise TypeError (''unsupported operand type(s) for *: '' @ sq @ type_name v @ sq
                                       @ '' and '' @ sq @ ''int'' @ sq))"




subsection \<open>\<^verbatim>\<open>create_quality_radar_chart\<close>\<close>







subsection \<open>\<^verbatim>\<open>generate_markdown_report\<close>\<close>


text \<open>\<^verbatim>\<open>x.split(sep)\<close> on a value: only a string has the method.\<close>

fun py_split_val :: "pyval \<Rightarrow> string \<Rightarrow> py_error + string list" where
  "py_split_val (PStr s) sep = py_split s sep"
| "py_split_val v sep =
     Inl (Raise AttributeError (sq @ type_name v @ sq @ '' object has no attribute '' @ sq @ ''split'' @ sq))"

text \<open>\<^verbatim>\<open>analysis.split('KEY_FINDINGS:')[1].split('NEW_CONCEPTS:')[0].strip()\<close>\<close>

definition key_findings_of :: "pyval \<Rightarrow> py_error + string" where
  "key_findings_of analysis =
     bind_err (py_split_val analysis ''KEY_FINDINGS:'') (\<lambda>parts.
     bind_err (py_index parts 1) (\<lambda>after.
     bind_err (py_split after ''NEW_CONCEPTS:'') (\<lambda>parts2.
     bind_err (py_index parts2 0) (\<lambda>between.
     Inr (py_strip between)))))"







subsection \<open>The sidebar's recent research and \<^verbatim>\<open>run\<close>\<close>

text \<open>\<^verbatim>\<open>x[:n]\<close> on a value.\<close>

fun py_slice_val :: "nat \<Rightarrow> pyval \<Rightarrow> py_error + pyval" where
  "py_slice_val n (PStr s) = Inr (PStr (py_slice_to n s))"
| "py_slice_val n (PList xs) = Inr (PList (py_slice_to n xs))"
| "py_slice_val n v = Inl (Raise TypeError (sq @ type_name v @ sq @ '' object is not subscriptable''))"

text \<open>
  The loop \<^verbatim>\<open>for i, research in enumerate(st.session_state.research_history[-5:])\<close> of
  \<^verbatim>\<open>render_sidebar\<close>: for each record the title of its expander,
  \<^verbatim>\<open>f"Research {len(history) - i}"\<close>, and the three lines written in it.
\<close>

fun sidebar_entries :: "(pyval \<Rightarrow> string) \<Rightarrow> nat \<Rightarrow> nat \<Rightarrow> pyval list \<Rightarrow> py_error + (string \<times> string list) list" where
  "sidebar_entries rp len i [] = Inr []"
| "sidebar_entries rp len i (research # rest) =
     bind_err (py_getitem research ''question'') (\<lambda>q.
     bind_err (py_slice_val 100 q) (\<lambda>q100.
     bind_err (py_get research ''quality_score'' (PStr ''N/A'')) (\<lambda>score.
     bind_err (py_get research ''timestamp'' (PStr ''Unknown'')) (\<lambda>ts.
     bind_err (sidebar_entries rp len (Suc i) rest) (\<lambda>entries.
     Inr ((''Research '' @ str_int (int len - int i),
           [''**Question:** '' @ py_str rp q100 @ ''...'',
            ''**Quality Score:** '' @ py_str rp score,
            ''**Date:** '' @ py_str rp ts]) # entries))))))"

definition sidebar_recent_research :: "(pyval \<Rightarrow> string) \<Rightarrow> pyval list \<Rightarrow> py_error + (string \<times> string list) list" where
  "sidebar_recent_research rp history =
     (if history = [] then Inr []
      else sidebar_entries rp (length history) 0 (py_slice_last 5 history))"

text \<open>
  The session state of the Streamlit application: the history, the current research
  (\<open>None\<close> until a research has succeeded), the texts shown by \<^verbatim>\<open>st.error\<close>, and the log of
  the agent's invocations. The agent and the session state are touched in \<^verbatim>\<open>run\<close>,
  \<^verbatim>\<open>run_research_with_progress\<close>, \<^verbatim>\<open>execute_research_with_updates\<close> and the sidebar only;
  the pages drawn by \<^verbatim>\<open>render_research_results\<close> read the result they are given.
\<close>

record streamlit_state =
  st_research_history :: "pyval list"
  st_current_research :: "pyval option"
  st_errors :: "string list"
  st_agent_calls :: "pyval list"

text \<open>\<^verbatim>\<open>run_research_with_progress\<close>: the result, or \<open>None\<close> after an exception was
  caught and shown.\<close>

definition run_research_with_progress ::
  "(py_error + agent) \<Rightarrow> string \<Rightarrow> streamlit_state \<Rightarrow> pyval option \<times> streamlit_state" where
  "run_research_with_progress create_agent question s =
     (case create_agent of
        Inl e \<Rightarrow> (None, s\<lparr>st_errors := st_errors s @ [''Research failed: '' @ str_exc e]\<rparr>)
      | Inr a \<Rightarrow>
          (let s1 = s\<lparr>st_agent_calls := st_agent_calls s @ [initial_state question]\<rparr>
           in case a (initial_state question) of
                Inl e \<Rightarrow> (None, s1\<lparr>st_errors := st_errors s1 @ [''Research failed: '' @ str_exc e]\<rparr>)
              | Inr result \<Rightarrow> (Some result, s1)))"

text \<open>
  The branch \<^verbatim>\<open>elif st.session_state.current_research:\<close> of \<^verbatim>\<open>run\<close>: the stored
  research is drawn again from its entries \<^verbatim>\<open>'result'\<close> and \<^verbatim>\<open>'question'\<close>.
\<close>

definition show_current_research ::
  "(pyval \<Rightarrow> pyval \<Rightarrow> py_error + unit) \<Rightarrow> pyval option \<Rightarrow> py_error + unit" where
  "show_current_research render current_research =
     (case current_research of
        None \<Rightarrow> Inr ()
      | Some current \<Rightarrow>
          if py_truthy current then
            bind_err (py_getitem current ''result'') (\<lambda>result.
            bind_err (py_getitem current ''question'') (\<lambda>question.
            render result question))
          else Inr ())"

text \<open>
  The statement of \<^verbatim>\<open>run\<close> that handles the research, after the header, the sidebar
  and the input are drawn; \<open>research_question\<close> and \<open>start_research\<close> are the text of the
  input and the state of the button, \<open>now\<close> the text of \<^verbatim>\<open>datetime.now().isoformat()\<close>.
  Nothing here is inside a \<^verbatim>\<open>try\<close>, so an exception of the record's construction or of
  the drawing leaves \<^verbatim>\<open>run\<close>.
\<close>

definition run ::
  "(py_error + agent) \<Rightarrow> string \<Rightarrow> (pyval \<Rightarrow> pyval \<Rightarrow> py_error + unit) \<Rightarrow> bool \<Rightarrow> string \<Rightarrow>
   streamlit_state \<Rightarrow> (py_error + unit) \<times> streamlit_state" where
  "run create_agent now render start_research research_question s =
     (if start_research \<and> py_strip research_question \<noteq> [] then
        (case run_research_with_progress create_agent research_question s of
           (None, s1) \<Rightarrow> (Inr (), s1)
         | (Some result, s1) \<Rightarrow>
             (if py_truthy result then
                (case quality_score_of result of
                   Inl e \<Rightarrow> (Inl e, s1)
                 | Inr quality_score \<Rightarrow>
                     (render result (PStr research_question),
                      s1\<lparr>st_research_history := st_research_history s1 @
                            [research_record research_question result now quality_score],
                         st_current_research :=
                            Some (research_record research_question result now quality_score)\<rparr>))
              else (Inr (), s1)))
      else (show_current_research render (st_current_research s), s))"

section \<open>The JSON export (\<^verbatim>\<open>export_as_json\<close>)\<close>

subsection \<open>\<^verbatim>\<open>json.dumps(result, indent=2, default=str)\<close>\<close>

text \<open>
  The export is one call of the library's encoder. It is modelled as the library
  documents it: items one per line, indented by two blanks per level, \<^verbatim>\<open>", "\<close> replaced
  by a comma and a line break, key and value separated by \<^verbatim>\<open>": "\<close>, keys in insertion
  order, every character outside the printable ASCII range escaped. Every value of the
  model is serialisable, so \<^verbatim>\<open>default=str\<close> is never called and the encoder raises
  nothing. The text of a float is the interpreter's \<^verbatim>\<open>repr\<close>, the parameter \<open>fr\<close>.
\<close>

definition quote :: char where
  "quote = CHR 0x22"

definition backslash :: char where
  "backslash = CHR 0x5C"

definition hex_digit :: "nat \<Rightarrow> char" where
  "hex_digit d = ''0123456789abcdef'' ! d"

text \<open>The replacement of one character in \<^verbatim>\<open>encode_basestring_ascii\<close>.\<close>

definition escape_char :: "char \<Rightarrow> string" where
  "escape_char c =
     (if c = quote then [backslash, quote]
      else if c = backslash then [backslash, backslash]
      else if c = CHR 0x0A then [backslash, CHR ''n'']
      else if c = CHR 0x0D then [backslash, CHR ''r'']
      else if c = CHR 0x09 then [backslash, CHR ''t'']
      else if c = CHR 0x08 then [backslash, CHR ''b'']
      else if c = CHR 0x0C then [backslash, CHR ''f'']
      else if 0x20 \<le> (of_char c :: nat) \<and> (of_char c :: nat) \<le> 0x7E then [c]
      else [backslash, CHR ''u'', CHR ''0'', CHR ''0'',
            hex_digit ((of_char c :: nat) div 16), hex_digit ((of_char c :: nat) mod 16)])"

definition encode_basestring_ascii :: "string \<Rightarrow> string" where
  "encode_basestring_ascii s = quote # concat (map escape_char s) @ [quote]"

definition newline_indent :: "nat \<Rightarrow> string" where
  "newline_indent level = nl @ replicate (2 * level) (CHR '' '')"

fun join :: "string \<Rightarrow> string list \<Rightarrow> string" where
  "join sep [] = []"
| "join sep [x] = x"
| "join sep (x # y # ys) = x @ sep @ join sep (y # ys)"

fun iterencode :: "(real \<Rightarrow> string) \<Rightarrow> nat \<Rightarrow> pyval \<Rightarrow> string" where
  "iterencode fr level PNone = ''null''"
| "iterencode fr level (PBool b) = (if b then ''true'' else ''false'')"
| "iterencode fr level (PInt i) = str_int i"
| "iterencode fr level (PFloat x) = fr x"
| "iterencode fr level (PStr s) = encode_basestring_ascii s"
| "iterencode fr level (PList xs) =
     (if xs = [] then ''[]''
      else ''['' @ newline_indent (Suc level)
           @ join ('','' @ newline_indent (Suc level)) (map (iterencode fr (Suc level)) xs)
           @ newline_indent level @ '']'')"
| "iterencode fr level (PDict kvs) =
     (if kvs = [] then ''{}''
      else ''{'' @ newline_indent (Suc level)
           @ join ('','' @ newline_indent (Suc level))
               (map (\<lambda>kv. encode_basestring_ascii (fst kv) @ '': '' @ iterencode fr (Suc level) (snd kv)) kvs)
           @ newline_indent level @ ''}'')"

definition json_dumps :: "(real \<Rightarrow> string) \<Rightarrow> pyval \<Rightarrow> string" where
  "json_dumps fr obj = iterencode fr 0 obj"

text \<open>
  \<^verbatim>\<open>export_as_json(result, question)\<close>: the text and the file name handed to the download
  button; \<open>now\<close> is the text of \<^verbatim>\<open>datetime.now().strftime('%Y%m%d_%H%M%S')\<close>. The question
  is a parameter of the source and is not used by it.
\<close>

definition export_as_json :: "(real \<Rightarrow> string) \<Rightarrow> string \<Rightarrow> pyval \<Rightarrow> string \<Rightarrow> string \<times> string" where
  "export_as_json fr now result question =
     (json_dumps fr result, ''research_results_'' @ now @ ''.json'')"

subsection \<open>\<^verbatim>\<open>json.loads\<close>\<close>

text \<open>
  The claim about the export speaks of parsing its text again; the repository never does
  so, and the parser meant is the library's \<^verbatim>\<open>json.loads\<close>. It is modelled as the
  library's decoder works: white space skipped between tokens, the literals, numbers
  (\<^verbatim>\<open>-?(0|[1-9]\d*)\<close> with an optional fraction and exponent), strings with their escapes,
  arrays and objects; a later duplicate key replaces the value of the earlier one. \<open>None\<close>
  is a \<^verbatim>\<open>JSONDecodeError\<close>. The float of a number with a fraction or an exponent is the
  interpreter's, the parameter \<open>fp\<close>; \<^verbatim>\<open>NaN\<close>, \<^verbatim>\<open>Infinity\<close> and characters from
  \<^verbatim>\<open>U+0100\<close> on are outside the values of the model and are refused.
\<close>

definition json_ws :: "char \<Rightarrow> bool" where
  "json_ws c = (c \<in> set [CHR '' '', CHR 0x09, CHR 0x0A, CHR 0x0D])"

definition skip_ws :: "string \<Rightarrow> string" where
  "skip_ws s = dropWhile json_ws s"

definition is_digit :: "char \<Rightarrow> bool" where
  "is_digit c = (c \<in> set ''0123456789'')"

definition digit_val :: "char \<Rightarrow> nat" where
  "digit_val c = (of_char c :: nat) - 48"

definition nat_of_digits :: "string \<Rightarrow> nat" where
  "nat_of_digits ds = foldl (\<lambda>a c. 10 * a + digit_val c) 0 ds"

definition hex_val :: "char \<Rightarrow> nat option" where
  "hex_val c = map_of (zip ''0123456789abcdefABCDEF''
                 [0, 1, 2, 3, 4, 5, 6, 7, 8, 9, 10, 11, 12, 13, 14, 15, 10, 11, 12, 13, 14, 15]) c"

text \<open>The character of a \<^verbatim>\<open>\uXXXX\<close> escape, when it is below \<^verbatim>\<open>U+0100\<close>.\<close>

definition decode_uXXXX :: "char \<Rightarrow> char \<Rightarrow> char \<Rightarrow> char \<Rightarrow> char option" where
  "decode_uXXXX a b c d =
     (case (hex_val a, hex_val b, hex_val c, hex_val d) of
        (Some h3, Some h2, Some h1, Some h0) \<Rightarrow>
          if h3 = 0 \<and> h2 = 0 then Some (char_of (16 * h1 + h0)) else None
      | _ \<Rightarrow> None)"

text \<open>The character a backslash escape other than \<^verbatim>\<open>\u\<close> stands for.\<close>

definition unescape :: "char \<Rightarrow> char option" where
  "unescape e =
     (if e = quote then Some quote
      else if e = backslash then Some backslash
      else if e = CHR ''/'' then Some (CHR ''/'')
      else if e = CHR ''b'' then Some (CHR 0x08)
      else if e = CHR ''f'' then Some (CHR 0x0C)
      else if e = CHR ''n'' then Some (CHR 0x0A)
      else if e = CHR ''r'' then Some (CHR 0x0D)
      else if e = CHR ''t'' then Some (CHR 0x09)
      else None)"

text \<open>\<^verbatim>\<open>scanstring\<close>, from the character after the opening quote: the string and the text
  after the closing quote. A control character in the string is refused.\<close>

fun scanstring :: "string \<Rightarrow> (string \<times> string) option" where
  "scanstring [] = None"
| "scanstring (c # cs) =
     (if c = quote then Some ([], cs)
      else if c = backslash then
        (case cs of
           [] \<Rightarrow> None
         | e # r \<Rightarrow>
             if e = CHR ''u'' then
               (case r of
                  a # b # c # d # r' \<Rightarrow>
                    (case decode_uXXXX a b c d of
                       None \<Rightarrow> None
                     | Some ch \<Rightarrow>
                         (case scanstring r' of None \<Rightarrow> None | Some (s, rest) \<Rightarrow> Some (ch # s, rest)))
                | _ \<Rightarrow> None)
             else
               (case unescape e of
                  None \<Rightarrow> None
                | Some ch \<Rightarrow>
                    (case scanstring r of None \<Rightarrow> None | Some (s, rest) \<Rightarrow> Some (ch # s, rest))))
      else if (of_char c :: nat) < 0x20 then None
      else (case scanstring cs of None \<Rightarrow> None | Some (s, rest) \<Rightarrow> Some (c # s, rest)))"

text \<open>The fraction \<^verbatim>\<open>(\.\d+)?\<close> and the exponent \<^verbatim>\<open>([eE][-+]?\d+)?\<close> at the head of a text;
  empty when there is none.\<close>

definition scan_frac :: "string \<Rightarrow> string" where
  "scan_frac s =
     (case s of
        c # d # r \<Rightarrow> if c = CHR ''.'' \<and> is_digit d then c # takeWhile is_digit (d # r) else []
      | _ \<Rightarrow> [])"

definition scan_exp :: "string \<Rightarrow> string" where
  "scan_exp s =
     (case s of
        c # d # r \<Rightarrow>
          if c = CHR ''e'' \<or> c = CHR ''E'' then
            (if is_digit d then c # takeWhile is_digit (d # r)
             else if d = CHR ''+'' \<or> d = CHR ''-'' then
               (case r of
                  x # r' \<Rightarrow> if is_digit x then c # d # takeWhile is_digit (x # r') else []
                | [] \<Rightarrow> [])
             else [])
          else []
      | _ \<Rightarrow> [])"

text \<open>The integer part \<^verbatim>\<open>-?(0|[1-9]\d*)\<close> at the head of a text.\<close>

definition scan_int :: "string \<Rightarrow> string option" where
  "scan_int s =
     (let sign = (if s \<noteq> [] \<and> hd s = CHR ''-'' then ''-'' else []);
          s1 = drop (length sign) s
      in case s1 of
           [] \<Rightarrow> None
         | c # r \<Rightarrow>
             if c = CHR ''0'' then Some (sign @ ''0'')
             else if is_digit c then Some (sign @ takeWhile is_digit s1)
             else None)"

definition int_of_text :: "string \<Rightarrow> int" where
  "int_of_text t =
     (if t \<noteq> [] \<and> hd t = CHR ''-'' then - int (nat_of_digits (tl t)) else int (nat_of_digits t))"

definition parse_number :: "(string \<Rightarrow> real option) \<Rightarrow> string \<Rightarrow> (pyval \<times> string) option" where
  "parse_number fp s =
     (case scan_int s of
        None \<Rightarrow> None
      | Some integer \<Rightarrow>
          (let s1 = drop (length integer) s;
               frac = scan_frac s1;
               s2 = drop (length frac) s1;
               exp = scan_exp s2;
               s3 = drop (length exp) s2
           in if frac = [] \<and> exp = [] then Some (PInt (int_of_text integer), s3)
              else (case fp (integer @ frac @ exp) of
                      None \<Rightarrow> None
                    | Some x \<Rightarrow> Some (PFloat x, s3))))"

text \<open>The dictionary built from the pairs of an object, in the order of first
  appearance of the keys.\<close>

fun dict_set :: "(string \<times> pyval) list \<Rightarrow> string \<Rightarrow> pyval \<Rightarrow> (string \<times> pyval) list" where
  "dict_set [] k v = [(k, v)]"
| "dict_set ((k', v') # d) k v = (if k' = k then (k', v) # d else (k', v') # dict_set d k v)"

definition dict_of_pairs :: "(string \<times> pyval) list \<Rightarrow> (string \<times> pyval) list" where
  "dict_of_pairs pairs = foldl (\<lambda>d kv. dict_set d (fst kv) (snd kv)) [] pairs"

text \<open>
  The decoder's three routines as one function: in the mode \<open>JValue\<close> a value at the
  head of the text; in the mode \<open>JArray\<close> the elements of a non-empty array up to its
  closing bracket, as a list; in the mode \<open>JObject\<close> the pairs of a non-empty object up
  to its closing brace, as a dictionary of pairs in the order read.
\<close>

datatype mode = JValue | JArray | JObject

partial_function (option) scan_once ::
  "(string \<Rightarrow> real option) \<Rightarrow> mode \<Rightarrow> string \<Rightarrow> (pyval \<times> string) option" where
  "scan_once fp m s =
     (case m of
        JValue \<Rightarrow>
          (case s of
             [] \<Rightarrow> None
           | c # r \<Rightarrow>
               if c = quote then
                 (case scanstring r of None \<Rightarrow> None | Some (str, r') \<Rightarrow> Some (PStr str, r'))
               else if c = CHR ''{'' then
                 (case skip_ws r of
                    [] \<Rightarrow> None
                  | d # r' \<Rightarrow>
                      if d = CHR ''}'' then Some (PDict [], r')
                      else Option.bind (scan_once fp JObject (d # r'))
                             (\<lambda>(obj, rest). case obj of
                                 PDict pairs \<Rightarrow> Some (PDict (dict_of_pairs pairs), rest)
                               | _ \<Rightarrow> None))
               else if c = CHR ''['' then
                 (case skip_ws r of
                    [] \<Rightarrow> None
                  | d # r' \<Rightarrow>
                      if d = CHR '']'' then Some (PList [], r')
                      else scan_once fp JArray (d # r'))
               else if prefix ''null'' s then Some (PNone, drop 4 s)
               else if prefix ''true'' s then Some (PBool True, drop 4 s)
               else if prefix ''false'' s then Some (PBool False, drop 5 s)
               else parse_number fp s)
      | JArray \<Rightarrow>
          Option.bind (scan_once fp JValue s) (\<lambda>(v, r).
            case skip_ws r of
              [] \<Rightarrow> None
            | d # r' \<Rightarrow>
                if d = CHR '']'' then Some (PList [v], r')
                else if d = CHR '','' then
                  Option.bind (scan_once fp JArray (skip_ws r')) (\<lambda>(more, rest).
                    case more of PList vs \<Rightarrow> Some (PList (v # vs), rest) | _ \<Rightarrow> None)
                else None)
      | JObject \<Rightarrow>
          (case s of
             [] \<Rightarrow> None
           | c # r \<Rightarrow>
               if c \<noteq> quote then None
               else
                 (case scanstring r of
                    None \<Rightarrow> None
                  | Some (key, r1) \<Rightarrow>
                      (case skip_ws r1 of
                         [] \<Rightarrow> None
                       | d # r2 \<Rightarrow>
                           if d \<noteq> CHR '':'' then None
                           else
                             Option.bind (scan_once fp JValue (skip_ws r2)) (\<lambda>(v, r3).
                               case skip_ws r3 of
                                 [] \<Rightarrow> None
                               | e # r4 \<Rightarrow>
                                   if e = CHR ''}'' then Some (PDict [(key, v)], r4)
                                   else if e = CHR '','' then
                                     Option.bind (scan_once fp JObject (skip_ws r4)) (\<lambda>(more, rest).
                                       case more of
                                         PDict pairs \<Rightarrow> Some (PDict ((key, v) # pairs), rest)
                                       | _ \<Rightarrow> None)
                                   else None)))))"

declare scan_once.simps [code]

text \<open>\<^verbatim>\<open>json.loads(text)\<close>: one value, white space around it, and nothing after.\<close>

definition json_loads :: "(string \<Rightarrow> real option) \<Rightarrow> string \<Rightarrow> pyval option" where
  "json_loads fp s =
     (case scan_once fp JValue (skip_ws s) of
        None \<Rightarrow> None
      | Some (obj, rest) \<Rightarrow> if skip_ws rest = [] then Some obj else None)"

text \<open>What follows a value in the encoder's text: nothing, a comma or a line break.\<close>

definition after_value :: "string \<Rightarrow> bool" where
  "after_value rest = (rest = [] \<or> hd rest = CHR '','' \<or> hd rest = CHR 0x0A)"

text \<open>
  A float whose text is faithful: \<^verbatim>\<open>repr\<close> writes it as a number, and a number read
  from that text is the float again. Python gives this for every finite float.
\<close>

definition float_faithful :: "(real \<Rightarrow> string) \<Rightarrow> (string \<Rightarrow> real option) \<Rightarrow> real \<Rightarrow> bool" where
  "float_faithful fr fp x =
     ((\<exists>c r. fr x = c # r \<and> (is_digit c \<or> c = CHR ''-''))
      \<and> (\<forall>rest. after_value rest \<longrightarrow> parse_number fp (fr x @ rest) = Some (PFloat x, rest)))"

text \<open>
  The values that JSON represents exactly: the floats in them are faithful, and a
  dictionary has each key once, as a Python dictionary has.
\<close>

fun json_exact :: "(real \<Rightarrow> string) \<Rightarrow> (string \<Rightarrow> real option) \<Rightarrow> pyval \<Rightarrow> bool" where
  "json_exact fr fp (PFloat x) = float_faithful fr fp x"
| "json_exact fr fp (PList xs) = list_all (json_exact fr fp) xs"
| "json_exact fr fp (PDict kvs) =
     (distinct (map fst kvs) \<and> list_all (\<lambda>kv. json_exact fr fp (snd kv)) kvs)"
| "json_exact fr fp v = True"

section \<open>Properties\<close>

subsection \<open>Helper facts\<close>

subsubsection \<open>Contiguous parts of a text, and the binding of errors\<close>

lemma sublist_here: "sublist x (x @ ys)"
  by (rule sublist_append_rightI)

lemma sublist_skip: "sublist x ys \<Longrightarrow> sublist x (zs @ ys)"
  by (auto simp: sublist_def) (metis append.assoc)

lemma bind_err_Inl [simp]: "bind_err (Inl e) f = Inl e"
  by (simp add: bind_err_def)

lemma bind_err_Inr [simp]: "bind_err (Inr x) f = f x"
  by (simp add: bind_err_def)

subsubsection \<open>Arithmetic of the radar metrics\<close>





lemma py_mul_float: "py_mul (PFloat r) n = Inr (PFloat (r * of_int n))"
  by simp




subsubsection \<open>The loops of the summaries and of the history\<close>

lemma plan_lines_closed:
  "plan_lines rp i steps acc =
     acc @ concat (map (\<lambda>(k, step). str_nat k @ ''. '' @ py_str rp step @ nl)
                       (zip [i ..< i + length steps] steps))"
proof (induction steps arbitrary: i acc)
  case Nil
  show ?case by simp
next
  case (Cons step steps)
  have "[i ..< i + length (step # steps)] = i # [Suc i ..< Suc i + length steps]"
    by (subst upt_rec) simp
  with Cons.IH [of "Suc i"] show ?case
    by simp
qed

lemma count_external_dicts:
  "\<forall>f \<in> set fs. \<exists>kvs. f = PDict kvs \<Longrightarrow>
   count_external fs =
     Inr (length (filter (\<lambda>f. case py_get f ''external_research'' PNone of
                                  Inl e \<Rightarrow> False | Inr v \<Rightarrow> py_truthy v) fs))"
proof (induction fs)
  case Nil
  show ?case by simp
next
  case (Cons f fs)
  then obtain kvs where "f = PDict kvs"
    by auto
  with Cons show ?case
    by simp
qed

lemma bit_length_bound: "a < 2 ^ n \<Longrightarrow> bit_length a \<le> n"
proof (induction n arbitrary: a)
  case 0
  then show ?case
    by (subst bit_length.simps) simp
next
  case (Suc n)
  show ?case
  proof (cases "a = 0")
    case True
    then show ?thesis
      by (subst bit_length.simps) simp
  next
    case False
    from Suc.prems have "a div 2 < 2 ^ n"
      by simp
    from Suc.IH [OF this] False show ?thesis
      by (subst bit_length.simps) simp
  qed
qed

lemma float_of_int_exact:
  assumes "\<bar>i\<bar> < 2 ^ 53"
  shows "float_of_int i = Inr (of_int i)"
proof -
  from assms have a: "nat \<bar>i\<bar> < 2 ^ 53"
    by (simp add: nat_less_iff)
  from bit_length_bound [OF a] have s: "bit_length (nat \<bar>i\<bar>) - 53 = 0"
    by simp
  have "(2::nat) ^ 53 < 2 ^ 1024"
    by (rule power_strict_increasing) simp_all
  with a have b: "\<not> (2::nat) ^ 1024 \<le> nat \<bar>i\<bar>"
    by simp
  have c: "(if i < 0 then - real (nat \<bar>i\<bar>) else real (nat \<bar>i\<bar>)) = of_int i"
    by simp
  show ?thesis
    unfolding float_of_int_def Let_def s
    using b c by simp
qed

lemma format_2f_num:
  "num_val c = Some x \<Longrightarrow> (\<forall>i. c = PInt i \<longrightarrow> \<bar>i\<bar> < 2 ^ 53) \<Longrightarrow> format_2f c = Inr (fixed2 x)"
  by (cases c) (auto simp: float_of_int_exact)

lemma py_slice_last_suffix: "\<exists>older. h = older @ py_slice_last n h"
proof (cases "n = 0")
  case True
  then have "h = [] @ py_slice_last n h"
    by (simp add: py_slice_last_def)
  then show ?thesis by blast
next
  case False
  then have "h = take (length h - n) h @ py_slice_last n h"
    by (simp add: py_slice_last_def)
  then show ?thesis by blast
qed

lemma history_lines_records:
  "history_lines rp i (map (\<lambda>(q, res, ts, qs). research_record q res ts qs) recs) acc =
     Inr (acc @ concat (map (\<lambda>(i, (q, res, ts, qs)).
            ''### Research '' @ str_nat i @ nl
            @ ''- **Question:** '' @ q @ nl
            @ ''- **Quality Score:** '' @ py_str rp qs @ nl
            @ ''- **Timestamp:** '' @ ts @ nl @ nl) (List.enumerate i recs)))"
proof (induction recs arbitrary: i acc)
  case Nil
  show ?case by simp
next
  case (Cons r recs)
  obtain q res ts qs where r: "r = (q, res, ts, qs)"
    by (cases r) auto
  have g: "py_getitem (research_record q res ts qs) ''question'' = Inr (PStr q)"
    "py_get (research_record q res ts qs) ''quality_score'' (PStr ''N/A'') = Inr qs"
    "py_get (research_record q res ts qs) ''timestamp'' (PStr ''Unknown'') = Inr (PStr ts)"
    by (simp_all add: research_record_def)
  show ?case
    unfolding r by (simp add: g Cons.IH)
qed

lemma conduct_research_appends:
  "research_history (snd (conduct_research create_agent now rp tt question s)) = research_history s
   \<or> (\<exists>result quality_score.
        research_history (snd (conduct_research create_agent now rp tt question s))
          = research_history s @ [research_record question result now quality_score])"
  by (auto simp: conduct_research_def initialize_agent_def Let_def
      split: option.splits sum.splits prod.splits)

subsubsection \<open>Splitting a text at a marker\<close>

lemma split_first_absent: "sep \<noteq> [] \<Longrightarrow> \<not> sublist sep s \<Longrightarrow> split_first sep s = None"
proof (induction s)
  case Nil
  then show ?case by simp
next
  case (Cons c cs)
  from Cons.prems(2) have "\<not> prefix sep (c # cs)" and "\<not> sublist sep cs"
    by (simp_all add: sublist_Cons_right)
  with Cons.IH Cons.prems(1) show ?case
    by simp
qed


lemma prefix_within:
  assumes "prefix sep (xs @ ys)" and "length sep \<le> length xs"
  shows "prefix sep xs"
proof -
  from assms(1) have "prefix sep xs \<or> (\<exists>us. sep = xs @ us \<and> prefix us ys)"
    by (simp add: prefix_append)
  with assms(2) show ?thesis
    by auto
qed

lemma split_first_at:
  assumes "sep \<noteq> []" and "\<not> sublist sep (pre @ butlast sep)"
  shows "split_first sep (pre @ sep @ rest) = Some (pre, rest)"
  using assms(2)
proof (induction pre)
  case Nil
  from assms(1) obtain c cs where sep: "sep = c # cs"
    by (cases sep) auto
  then have "split_first sep (sep @ rest) = Some ([], drop (length sep) (sep @ rest))"
    by simp
  then show ?case by simp
next
  case (Cons p pre)
  have no_prefix: "\<not> prefix sep (p # pre @ sep @ rest)"
  proof
    assume pr: "prefix sep (p # pre @ sep @ rest)"
    from assms(1) have "sep = butlast sep @ [last sep]"
      by simp
    then have "p # pre @ sep @ rest = ((p # pre) @ butlast sep) @ ([last sep] @ rest)"
      by (metis append.assoc append_Cons)
    with pr have "prefix sep (((p # pre) @ butlast sep) @ ([last sep] @ rest))"
      by simp
    moreover from assms(1) have "length sep \<le> length ((p # pre) @ butlast sep)"
      by (cases sep) auto
    ultimately have "prefix sep ((p # pre) @ butlast sep)"
      by (rule prefix_within)
    then have "sublist sep ((p # pre) @ butlast sep)"
      by (rule prefix_imp_sublist)
    with Cons.prems show False by simp
  qed
  from Cons.prems have "\<not> sublist sep (pre @ butlast sep)"
    by (simp add: sublist_Cons_right)
  from Cons.IH [OF this] no_prefix show ?case
    by simp
qed

lemma splits_found:
  "sep \<noteq> [] \<Longrightarrow> split_first sep s = Some (b, a) \<Longrightarrow> splits sep s = b # splits sep a"
  by (subst splits.simps) simp

lemma splits_not_found:
  "split_first sep s = None \<Longrightarrow> splits sep s = [s]"
  by (subst splits.simps) simp

lemma splits_first_piece:
  assumes "sep \<noteq> []" and "\<not> sublist sep (pre @ butlast sep)"
  shows "splits sep (pre @ sep @ rest) = pre # splits sep rest"
  using splits_found [OF assms(1) split_first_at [OF assms]] .


lemma between_markers:
  assumes "k \<noteq> []" and "m \<noteq> []"
    and "\<not> sublist k (pre @ butlast k)"
    and "\<not> sublist k (mid @ m @ post)"
    and "\<not> sublist m (mid @ butlast m)"
  shows "bind_err (py_split (pre @ k @ mid @ m @ post) k) (\<lambda>parts.
         bind_err (py_index parts 1) (\<lambda>after.
         bind_err (py_split after m) (\<lambda>parts2.
         bind_err (py_index parts2 0) (\<lambda>between.
         Inr (py_strip between))))) = Inr (py_strip mid)"
proof -
  have a: "splits k (pre @ k @ mid @ m @ post) = [pre, mid @ m @ post]"
    using splits_first_piece [OF assms(1,3), of "mid @ m @ post"]
      splits_not_found [OF split_first_absent [OF assms(1,4)]]
    by simp
  have b: "splits m (mid @ m @ post) = mid # splits m post"
    by (rule splits_first_piece [OF assms(2,5)])
  from assms(1,2) a b show ?thesis
    by (simp add: py_split_def py_index_def)
qed









subsubsection \<open>The blocks of the findings in the report\<close>




lemma key_findings_of_between:
  assumes "\<not> sublist ''KEY_FINDINGS:'' (pre @ butlast ''KEY_FINDINGS:'')"
    and "\<not> sublist ''KEY_FINDINGS:'' (mid @ ''NEW_CONCEPTS:'' @ post)"
    and "\<not> sublist ''NEW_CONCEPTS:'' (mid @ butlast ''NEW_CONCEPTS:'')"
  shows "key_findings_of (PStr (pre @ ''KEY_FINDINGS:'' @ mid @ ''NEW_CONCEPTS:'' @ post))
           = Inr (py_strip mid)"
  unfolding key_findings_of_def py_split_val.simps
  by (rule between_markers [OF _ _ assms]) simp_all

text \<open>
  When \<^verbatim>\<open>KEY_FINDINGS:\<close> occurs once and \<^verbatim>\<open>NEW_CONCEPTS:\<close> does not occur after it,
  the extraction takes the text after \<^verbatim>\<open>KEY_FINDINGS:\<close> to the end of the analysis,
  stripped.
\<close>

lemma key_findings_without_new_concepts:
  assumes "\<not> sublist ''KEY_FINDINGS:'' (pre @ butlast ''KEY_FINDINGS:'')"
    and "\<not> sublist ''KEY_FINDINGS:'' rest"
    and "\<not> sublist ''NEW_CONCEPTS:'' rest"
  shows "key_findings_of (PStr (pre @ ''KEY_FINDINGS:'' @ rest)) = Inr (py_strip rest)"
proof -
  have general: "bind_err (py_split (pre @ k @ rest) k) (\<lambda>parts.
         bind_err (py_index parts 1) (\<lambda>after.
         bind_err (py_split after m) (\<lambda>parts2.
         bind_err (py_index parts2 0) (\<lambda>between.
         Inr (py_strip between))))) = Inr (py_strip rest)"
    if k: "k \<noteq> []" and m: "m \<noteq> []" and h: "\<not> sublist k (pre @ butlast k)"
      "\<not> sublist k rest" "\<not> sublist m rest" for k m
  proof -
    have a: "splits k (pre @ k @ rest) = [pre, rest]"
      using splits_first_piece [OF k h(1), of rest]
        splits_not_found [OF split_first_absent [OF k h(2)]]
      by simp
    have b: "splits m rest = [rest]"
      by (rule splits_not_found [OF split_first_absent [OF m h(3)]])
    from k m a b show ?thesis
      by (simp add: py_split_def py_index_def)
  qed
  show ?thesis
    unfolding key_findings_of_def py_split_val.simps
    by (rule general [OF _ _ assms]) simp_all
qed


lemma report_head:
  "\<exists>report1. (if py_truthy (PList steps) then
          bind_err (py_iter (PList steps)) (\<lambda>steps. Inr (plan_lines rp 1 steps h1))
        else Inr h2) = Inr report1"
  by simp

subsubsection \<open>Strings in a JSON text\<close>

lemma quote_neq [simp]:
  "quote \<noteq> backslash" "backslash \<noteq> quote"
  "\<not> json_ws quote" "\<not> json_ws backslash"
  by (simp_all add: quote_def backslash_def json_ws_def)

lemma hex_val_hex_digit: "d < 16 \<Longrightarrow> hex_val (hex_digit d) = Some d"
proof -
  have "\<forall>d \<in> set [0 ..< 16]. hex_val (hex_digit d) = Some d"
    by code_simp
  moreover assume "d < 16"
  ultimately show ?thesis
    by simp
qed

lemma decode_uXXXX_escape:
  "decode_uXXXX (CHR ''0'') (CHR ''0'') (hex_digit ((of_char c :: nat) div 16))
     (hex_digit ((of_char c :: nat) mod 16)) = Some c"
proof -
  have lt: "(of_char c :: nat) < 256"
    by (rule nat_of_char_less_256)
  then have a: "(of_char c :: nat) div 16 < 16"
    by (simp add: div_less_iff_less_mult)
  have b: "(of_char c :: nat) mod 16 < 16"
    by simp
  have z: "hex_val (CHR ''0'') = Some 0"
    by (simp add: hex_val_def)
  have "char_of (16 * ((of_char c :: nat) div 16) + (of_char c :: nat) mod 16) = c"
    by simp
  with z hex_val_hex_digit [OF a] hex_val_hex_digit [OF b] show ?thesis
    by (simp add: decode_uXXXX_def)
qed

lemma scanstring_escape_char:
  assumes "scanstring tail = Some (s, rest)"
  shows "scanstring (escape_char c @ tail) = Some (c # s, rest)"
proof -
  consider (q) "c = quote" | (b) "c = backslash" | (n) "c = CHR 0x0A" | (r) "c = CHR 0x0D"
    | (t) "c = CHR 0x09" | (bs) "c = CHR 0x08" | (f) "c = CHR 0x0C"
    | (plain) "c \<noteq> quote" "c \<noteq> backslash" "0x20 \<le> (of_char c :: nat)" "(of_char c :: nat) \<le> 0x7E"
    | (u) "c \<noteq> quote" "c \<noteq> backslash" "c \<noteq> CHR 0x0A" "c \<noteq> CHR 0x0D" "c \<noteq> CHR 0x09"
          "c \<noteq> CHR 0x08" "c \<noteq> CHR 0x0C"
          "\<not> (0x20 \<le> (of_char c :: nat) \<and> (of_char c :: nat) \<le> 0x7E)"
    by blast
  then show ?thesis
  proof cases
    case q
    with assms show ?thesis by (simp add: escape_char_def unescape_def) (simp add: quote_def)
  next
    case b
    with assms show ?thesis by (simp add: escape_char_def unescape_def) (simp add: backslash_def quote_def)
  next
    case n
    with assms show ?thesis by (simp add: escape_char_def unescape_def quote_def backslash_def)
  next
    case r
    with assms show ?thesis by (simp add: escape_char_def unescape_def quote_def backslash_def)
  next
    case t
    with assms show ?thesis by (simp add: escape_char_def unescape_def quote_def backslash_def)
  next
    case bs
    with assms show ?thesis by (simp add: escape_char_def unescape_def quote_def backslash_def)
  next
    case f
    with assms show ?thesis by (simp add: escape_char_def unescape_def quote_def backslash_def)
  next
    case plain
    then have "escape_char c = [c]"
      by (auto simp: escape_char_def)
    with plain assms show ?thesis by simp
  next
    case u
    then have "escape_char c = [backslash, CHR ''u'', CHR ''0'', CHR ''0'',
            hex_digit ((of_char c :: nat) div 16), hex_digit ((of_char c :: nat) mod 16)]"
      by (simp add: escape_char_def)
    with assms decode_uXXXX_escape [of c] show ?thesis by simp
  qed
qed

lemma scanstring_escaped:
  "scanstring (concat (map escape_char s) @ quote # rest) = Some (s, rest)"
proof (induction s)
  case Nil
  show ?case by simp
next
  case (Cons c s)
  from scanstring_escape_char [OF Cons.IH, of c] show ?case
    by simp
qed

subsubsection \<open>Integers in a JSON text\<close>

lemma digit_char_facts:
  assumes "d < 10"
  shows "is_digit (digit_char d)" and "digit_val (digit_char d) = d"
    and "(digit_char d = CHR ''0'') = (d = 0)" and "digit_char d \<noteq> CHR ''-''"
proof -
  have "\<forall>d \<in> set [0 ..< 10]. is_digit (digit_char d) \<and> digit_val (digit_char d) = d
          \<and> (digit_char d = CHR ''0'') = (d = 0) \<and> digit_char d \<noteq> CHR ''-''"
    by code_simp
  with assms show "is_digit (digit_char d)" and "digit_val (digit_char d) = d"
    and "(digit_char d = CHR ''0'') = (d = 0)" and "digit_char d \<noteq> CHR ''-''"
    by simp_all
qed

lemma str_nat_nonempty: "str_nat n \<noteq> []"
  by (subst str_nat.simps) simp

lemma str_nat_digits: "list_all is_digit (str_nat n)"
proof (induction n rule: str_nat.induct)
  case (1 n)
  show ?case
  proof (cases "n < 10")
    case True
    then show ?thesis
      by (subst str_nat.simps) (simp add: digit_char_facts)
  next
    case False
    with "1.IH" show ?thesis
      by (subst str_nat.simps) (simp add: digit_char_facts)
  qed
qed

lemma nat_of_digits_snoc: "nat_of_digits (ds @ [c]) = 10 * nat_of_digits ds + digit_val c"
  by (simp add: nat_of_digits_def)

lemma nat_of_digits_str_nat: "nat_of_digits (str_nat n) = n"
proof (induction n rule: str_nat.induct)
  case (1 n)
  show ?case
  proof (cases "n < 10")
    case True
    then show ?thesis
      by (subst str_nat.simps) (simp add: nat_of_digits_def digit_char_facts)
  next
    case False
    with "1.IH" show ?thesis
      by (subst str_nat.simps) (simp add: nat_of_digits_snoc digit_char_facts)
  qed
qed

lemma hd_str_nat: "is_digit (hd (str_nat n))" "hd (str_nat n) \<noteq> CHR ''-''"
  "(hd (str_nat n) = CHR ''0'') = (n = 0)"
proof (induction n rule: str_nat.induct)
  case (1 n)
  {
    case 1
    show ?case
    proof (cases "n < 10")
      case True
      then show ?thesis by (subst str_nat.simps) (simp add: digit_char_facts)
    next
      case False
      with "1.IH"(1) show ?thesis by (subst str_nat.simps) (simp add: str_nat_nonempty)
    qed
  next
    case 2
    show ?case
    proof (cases "n < 10")
      case True
      then show ?thesis by (subst str_nat.simps) (simp add: digit_char_facts)
    next
      case False
      with "1.IH"(2) show ?thesis by (subst str_nat.simps) (simp add: str_nat_nonempty)
    qed
  next
    case 3
    show ?case
    proof (cases "n < 10")
      case True
      then show ?thesis by (subst str_nat.simps) (simp add: digit_char_facts)
    next
      case False
      then have "n div 10 \<noteq> 0" by simp
      with False "1.IH"(3) show ?thesis by (subst str_nat.simps) (simp add: str_nat_nonempty)
    qed
  }
qed

lemma after_value_not_digit:
  assumes "after_value rest"
  shows "takeWhile is_digit rest = []" and "scan_frac rest = []" and "scan_exp rest = []"
proof -
  from assms show "takeWhile is_digit rest = []"
    by (cases rest) (auto simp: after_value_def is_digit_def)
  from assms show "scan_frac rest = []"
    by (cases rest) (auto simp: after_value_def scan_frac_def split: list.splits)
  from assms show "scan_exp rest = []"
    by (cases rest) (auto simp: after_value_def scan_exp_def split: list.splits)
qed

lemma takeWhile_str_nat:
  "after_value rest \<Longrightarrow> takeWhile is_digit (str_nat n @ rest) = str_nat n"
  using str_nat_digits [of n]
  by (simp add: takeWhile_append2 list_all_iff after_value_not_digit)

lemma scan_int_str_int:
  assumes "after_value rest"
  shows "scan_int (str_int i @ rest) = Some (str_int i)"
proof (cases "i < 0")
  case True
  obtain c r where cr: "str_nat (nat (- i)) = c # r"
    using str_nat_nonempty [of "nat (- i)"] by (cases "str_nat (nat (- i))") auto
  from True have "nat (- i) \<noteq> 0"
    by simp
  with hd_str_nat [of "nat (- i)"] cr have c: "is_digit c" "c \<noteq> CHR ''0''"
    by auto
  from takeWhile_str_nat [OF assms, of "nat (- i)"] cr
  have "takeWhile is_digit (c # r @ rest) = c # r"
    by simp
  with True c cr show ?thesis
    by (simp add: scan_int_def str_int_def)
next
  case False
  obtain c r where cr: "str_nat (nat i) = c # r"
    using str_nat_nonempty [of "nat i"] by (cases "str_nat (nat i)") auto
  with hd_str_nat [of "nat i"] have c: "is_digit c" "c \<noteq> CHR ''-''" "(c = CHR ''0'') = (nat i = 0)"
    by auto
  have zero: "str_nat 0 = ''0''"
    by (subst str_nat.simps) (simp add: digit_char_def)
  from takeWhile_str_nat [OF assms, of "nat i"] cr
  have tw: "takeWhile is_digit (c # r @ rest) = c # r"
    by simp
  show ?thesis
  proof (cases "nat i = 0")
    case True
    with cr zero have "c = CHR ''0''" "r = []"
      by simp_all
    with False cr show ?thesis
      by (simp add: scan_int_def str_int_def)
  next
    case nz: False
    with c have "c \<noteq> CHR ''0''"
      by simp
    with False c cr tw show ?thesis
      by (simp add: scan_int_def str_int_def)
  qed
qed

lemma int_of_text_str_int: "int_of_text (str_int i) = i"
proof (cases "i < 0")
  case True
  then show ?thesis
    by (simp add: int_of_text_def str_int_def nat_of_digits_str_nat)
next
  case False
  with hd_str_nat(2) [of "nat i"] str_nat_nonempty [of "nat i"] show ?thesis
    by (simp add: int_of_text_def str_int_def nat_of_digits_str_nat)
qed

lemma parse_number_str_int:
  "after_value rest \<Longrightarrow> parse_number fp (str_int i @ rest) = Some (PInt i, rest)"
  by (simp add: parse_number_def scan_int_str_int after_value_not_digit int_of_text_str_int Let_def)

lemma str_int_head:
  "\<exists>c r. str_int i = c # r \<and> (is_digit c \<or> c = CHR ''-'')"
proof (cases "i < 0")
  case True
  then show ?thesis by (simp add: str_int_def)
next
  case False
  with hd_str_nat(1) [of "nat i"] str_nat_nonempty [of "nat i"] show ?thesis
    by (cases "str_nat (nat i)") (auto simp: str_int_def)
qed

subsubsection \<open>Arrays, objects and the whole value\<close>

lemma skip_ws_newline_indent: "skip_ws (newline_indent l @ s) = skip_ws s"
proof -
  have "\<And>c. c \<in> set (newline_indent l) \<Longrightarrow> json_ws c"
    by (auto simp: newline_indent_def nl_def json_ws_def)
  then show ?thesis
    unfolding skip_ws_def by (rule dropWhile_append2)
qed

lemma skip_ws_token: "\<not> json_ws c \<Longrightarrow> skip_ws (c # r) = c # r"
  by (simp add: skip_ws_def)

lemma skip_ws_blank: "skip_ws (CHR '' '' # s) = skip_ws s"
  by (simp add: skip_ws_def json_ws_def)

lemma after_value_newline_indent: "after_value (newline_indent l @ s)"
  by (simp add: after_value_def newline_indent_def nl_def)

lemma after_value_comma: "after_value (CHR '','' # s)"
  by (simp add: after_value_def)

lemma join_Cons: "join sep (x # xs) = x @ (if xs = [] then [] else sep @ join sep xs)"
  by (cases xs) simp_all

lemma iterencode_head:
  "json_exact fr fp v \<Longrightarrow>
   \<exists>c r. iterencode fr l v = c # r \<and> \<not> json_ws c \<and> c \<noteq> CHR '']'' \<and> c \<noteq> CHR ''}''"
proof (cases v)
  case (PInt i)
  from str_int_head [of i] obtain c r where "str_int i = c # r" "is_digit c \<or> c = CHR ''-''"
    by blast
  with PInt show ?thesis
    by (auto simp: is_digit_def json_ws_def)
next
  case (PFloat x)
  assume "json_exact fr fp v"
  with PFloat obtain c r where "fr x = c # r" "is_digit c \<or> c = CHR ''-''"
    by (auto simp: float_faithful_def)
  with PFloat show ?thesis
    by (auto simp: is_digit_def json_ws_def)
next
  case (PStr s)
  then show ?thesis
    by (simp add: encode_basestring_ascii_def quote_def json_ws_def)
qed (auto simp: json_ws_def)

lemma dict_set_fresh: "k \<notin> fst ` set d \<Longrightarrow> dict_set d k v = d @ [(k, v)]"
  by (induction d) auto

lemma dict_of_pairs_distinct_acc:
  "distinct (map fst (acc @ kvs)) \<Longrightarrow>
   foldl (\<lambda>d kv. dict_set d (fst kv) (snd kv)) acc kvs = acc @ kvs"
proof (induction kvs arbitrary: acc)
  case Nil
  show ?case by simp
next
  case (Cons kv kvs)
  from Cons.prems have fresh: "fst kv \<notin> fst ` set acc"
    by auto
  from Cons.prems have "distinct (map fst ((acc @ [kv]) @ kvs))"
    by simp
  from Cons.IH [OF this] fresh show ?case
    by (simp add: dict_set_fresh)
qed

lemma dict_of_pairs_distinct: "distinct (map fst kvs) \<Longrightarrow> dict_of_pairs kvs = kvs"
  using dict_of_pairs_distinct_acc [of "[]" kvs] by (simp add: dict_of_pairs_def)

lemma scan_array_items:
  assumes "xs \<noteq> []"
    and elems: "\<And>x rest. x \<in> set xs \<Longrightarrow> after_value rest \<Longrightarrow>
            scan_once fp JValue (iterencode fr (Suc l) x @ rest) = Some (x, rest)"
    and heads: "\<And>x. x \<in> set xs \<Longrightarrow> \<exists>c r. iterencode fr (Suc l) x = c # r \<and> \<not> json_ws c"
  shows "scan_once fp JArray
           (join (CHR '','' # newline_indent (Suc l)) (map (iterencode fr (Suc l)) xs)
            @ newline_indent l @ CHR '']'' # rest) = Some (PList xs, rest)"
  using assms
proof (induction xs rule: list_nonempty_induct)
  case (single x)
  have v: "scan_once fp JValue (iterencode fr (Suc l) x @ newline_indent l @ CHR '']'' # rest)
      = Some (x, newline_indent l @ CHR '']'' # rest)"
    by (rule single(1)) (simp_all add: after_value_newline_indent)
  have w: "skip_ws (newline_indent l @ CHR '']'' # rest) = CHR '']'' # rest"
    by (simp add: skip_ws_newline_indent skip_ws_token json_ws_def)
  show ?case
    by (subst scan_once.simps) (simp add: v w)
next
  case (cons x xs)
  let ?sep = "CHR '','' # newline_indent (Suc l)"
  let ?tail = "join ?sep (map (iterencode fr (Suc l)) xs) @ newline_indent l @ CHR '']'' # rest"
  have ih: "scan_once fp JArray ?tail = Some (PList xs, rest)"
  proof (rule cons.IH)
    fix z rest'
    assume "z \<in> set xs" and "after_value rest'"
    then show "scan_once fp JValue (iterencode fr (Suc l) z @ rest') = Some (z, rest')"
      using cons.prems(1) [of z rest'] by simp
  next
    fix z
    assume "z \<in> set xs"
    then show "\<exists>c r. iterencode fr (Suc l) z = c # r \<and> \<not> json_ws c"
      using cons.prems(2) [of z] by simp
  qed
  from cons.hyps obtain y ys where xs: "xs = y # ys"
    by (cases xs) auto
  from cons.prems(2) [of y] xs obtain c r where h: "iterencode fr (Suc l) y = c # r" "\<not> json_ws c"
    by auto
  have tail_head: "?tail = c # (r @ (if ys = [] then [] else ?sep @ join ?sep (map (iterencode fr (Suc l)) ys))
        @ newline_indent l @ CHR '']'' # rest)"
    by (simp add: xs join_Cons h)
  have w2: "skip_ws (newline_indent (Suc l) @ ?tail) = ?tail"
    by (subst skip_ws_newline_indent, subst tail_head, subst skip_ws_token [OF h(2)], subst tail_head) simp
  have whole: "join ?sep (map (iterencode fr (Suc l)) (x # xs)) @ newline_indent l @ CHR '']'' # rest
      = iterencode fr (Suc l) x @ CHR '','' # newline_indent (Suc l) @ ?tail"
    using cons.hyps by (simp add: join_Cons)
  have v: "scan_once fp JValue (iterencode fr (Suc l) x @ CHR '','' # newline_indent (Suc l) @ ?tail)
      = Some (x, CHR '','' # newline_indent (Suc l) @ ?tail)"
    by (rule cons.prems(1)) (simp_all add: after_value_comma)
  have w1: "skip_ws (CHR '','' # newline_indent (Suc l) @ ?tail) = CHR '','' # newline_indent (Suc l) @ ?tail"
    by (simp add: skip_ws_token json_ws_def)
  show ?case
    unfolding whole
    by (subst scan_once.simps) (simp add: v w1 w2 ih)
qed

lemma skip_ws_value:
  "iterencode fr l v = c # r \<Longrightarrow> \<not> json_ws c \<Longrightarrow>
   skip_ws (iterencode fr l v @ R) = iterencode fr l v @ R"
  by (simp add: skip_ws_token)

lemma scan_object_pairs:
  assumes "kvs \<noteq> []"
    and elems: "\<And>kv rest. kv \<in> set kvs \<Longrightarrow> after_value rest \<Longrightarrow>
            scan_once fp JValue (iterencode fr (Suc l) (snd kv) @ rest) = Some (snd kv, rest)"
    and heads: "\<And>kv. kv \<in> set kvs \<Longrightarrow>
            \<exists>c r. iterencode fr (Suc l) (snd kv) = c # r \<and> \<not> json_ws c"
  shows "scan_once fp JObject
           (join (CHR '','' # newline_indent (Suc l))
              (map (\<lambda>kv. encode_basestring_ascii (fst kv) @ CHR '':'' # CHR '' '' # iterencode fr (Suc l) (snd kv)) kvs)
            @ newline_indent l @ CHR ''}'' # rest) = Some (PDict kvs, rest)"
  using assms
proof (induction kvs rule: list_nonempty_induct)
  case (single kv)
  let ?R = "newline_indent l @ CHR ''}'' # rest"
  from single(2) [of kv] obtain c r where h: "iterencode fr (Suc l) (snd kv) = c # r" "\<not> json_ws c"
    by auto
  have v: "scan_once fp JValue (iterencode fr (Suc l) (snd kv) @ ?R) = Some (snd kv, ?R)"
    by (rule single(1)) (simp_all add: after_value_newline_indent)
  have w0: "skip_ws (CHR '':'' # CHR '' '' # iterencode fr (Suc l) (snd kv) @ ?R)
      = CHR '':'' # CHR '' '' # iterencode fr (Suc l) (snd kv) @ ?R"
    by (simp add: skip_ws_token json_ws_def)
  have w1: "skip_ws (CHR '' '' # iterencode fr (Suc l) (snd kv) @ ?R) = iterencode fr (Suc l) (snd kv) @ ?R"
    by (simp add: skip_ws_blank skip_ws_value [OF h])
  have w2: "skip_ws ?R = CHR ''}'' # rest"
    by (simp add: skip_ws_newline_indent skip_ws_token json_ws_def)
  show ?case
    by (subst scan_once.simps)
       (simp add: encode_basestring_ascii_def scanstring_escaped v w0 w1 w2)
next
  case (cons kv kvs)
  let ?sep = "CHR '','' # newline_indent (Suc l)"
  let ?pair = "\<lambda>kv. encode_basestring_ascii (fst kv) @ CHR '':'' # CHR '' '' # iterencode fr (Suc l) (snd kv)"
  let ?tail = "join ?sep (map ?pair kvs) @ newline_indent l @ CHR ''}'' # rest"
  let ?R = "CHR '','' # newline_indent (Suc l) @ ?tail"
  have ih: "scan_once fp JObject ?tail = Some (PDict kvs, rest)"
  proof (rule cons.IH)
    fix z rest'
    assume "z \<in> set kvs" and "after_value rest'"
    then show "scan_once fp JValue (iterencode fr (Suc l) (snd z) @ rest') = Some (snd z, rest')"
      using cons.prems(1) [of z rest'] by simp
  next
    fix z
    assume "z \<in> set kvs"
    then show "\<exists>c r. iterencode fr (Suc l) (snd z) = c # r \<and> \<not> json_ws c"
      using cons.prems(2) [of z] by simp
  qed
  from cons.hyps obtain y ys where kvs: "kvs = y # ys"
    by (cases kvs) auto
  have tail_head: "?tail = quote # (concat (map escape_char (fst y)) @ quote # CHR '':'' # CHR '' '' #
        iterencode fr (Suc l) (snd y) @ (if ys = [] then [] else ?sep @ join ?sep (map ?pair ys))
        @ newline_indent l @ CHR ''}'' # rest)"
    by (simp add: kvs join_Cons encode_basestring_ascii_def)
  have w3: "skip_ws (newline_indent (Suc l) @ ?tail) = ?tail"
    by (subst skip_ws_newline_indent, subst tail_head, subst skip_ws_token, simp, subst tail_head) simp
  from cons.prems(2) [of kv] obtain c r where h: "iterencode fr (Suc l) (snd kv) = c # r" "\<not> json_ws c"
    by auto
  have whole: "join ?sep (map ?pair (kv # kvs)) @ newline_indent l @ CHR ''}'' # rest
      = quote # concat (map escape_char (fst kv)) @ quote # CHR '':'' # CHR '' '' #
          iterencode fr (Suc l) (snd kv) @ ?R"
    using cons.hyps by (simp add: join_Cons encode_basestring_ascii_def)
  have v: "scan_once fp JValue (iterencode fr (Suc l) (snd kv) @ ?R) = Some (snd kv, ?R)"
    by (rule cons.prems(1)) (simp_all add: after_value_comma)
  have w0: "skip_ws (CHR '':'' # CHR '' '' # iterencode fr (Suc l) (snd kv) @ ?R)
      = CHR '':'' # CHR '' '' # iterencode fr (Suc l) (snd kv) @ ?R"
    by (simp add: skip_ws_token json_ws_def)
  have w1: "skip_ws (CHR '' '' # iterencode fr (Suc l) (snd kv) @ ?R) = iterencode fr (Suc l) (snd kv) @ ?R"
    by (simp add: skip_ws_blank skip_ws_value [OF h])
  have w2: "skip_ws ?R = ?R"
    by (simp add: skip_ws_token json_ws_def)
  show ?case
    unfolding whole
    by (subst scan_once.simps) (simp add: scanstring_escaped v w0 w1 w2 w3 ih)
qed

lemma scan_once_iterencode:
  "json_exact fr fp v \<Longrightarrow> after_value rest \<Longrightarrow>
   scan_once fp JValue (iterencode fr l v @ rest) = Some (v, rest)"
proof (induction v arbitrary: l rest)
  case PNone
  show ?case
    by (subst scan_once.simps) (simp add: quote_def)
next
  case (PBool b)
  show ?case
    by (subst scan_once.simps) (cases b; simp add: quote_def)
next
  case (PInt i)
  from str_int_head [of i] obtain c r where cr: "str_int i = c # r" and c: "is_digit c \<or> c = CHR ''-''"
    by blast
  from parse_number_str_int [OF PInt.prems(2), of fp i] cr
  have pn: "parse_number fp (c # r @ rest) = Some (PInt i, rest)"
    by simp
  from c have "c \<noteq> quote" "c \<noteq> CHR ''{''" "c \<noteq> CHR ''[''" "c \<noteq> CHR ''n''" "c \<noteq> CHR ''t''"
      "c \<noteq> CHR ''f''"
    by (auto simp: is_digit_def quote_def)
  with cr pn show ?case
    by (subst scan_once.simps) simp
next
  case (PFloat x)
  then obtain c r where cr: "fr x = c # r" and c: "is_digit c \<or> c = CHR ''-''"
    and pn: "parse_number fp (fr x @ rest) = Some (PFloat x, rest)"
    by (auto simp: float_faithful_def)
  from c have "c \<noteq> quote" "c \<noteq> CHR ''{''" "c \<noteq> CHR ''[''" "c \<noteq> CHR ''n''" "c \<noteq> CHR ''t''"
      "c \<noteq> CHR ''f''"
    by (auto simp: is_digit_def quote_def)
  with cr pn show ?case
    by (subst scan_once.simps) simp
next
  case (PStr s)
  show ?case
    by (subst scan_once.simps) (simp add: encode_basestring_ascii_def scanstring_escaped)
next
  case (PList xs)
  show ?case
  proof (cases "xs = []")
    case True
    have "skip_ws (CHR '']'' # rest) = CHR '']'' # rest"
      by (simp add: skip_ws_token json_ws_def)
    with True show ?thesis
      by (subst scan_once.simps) (simp add: quote_def)
  next
    case False
    let ?J = "join (CHR '','' # newline_indent (Suc l)) (map (iterencode fr (Suc l)) xs)
            @ newline_indent l @ CHR '']'' # rest"
    from PList.prems(1) have ex: "\<And>x. x \<in> set xs \<Longrightarrow> json_exact fr fp x"
      by (simp add: list_all_iff)
    have elems: "\<And>x rest. x \<in> set xs \<Longrightarrow> after_value rest \<Longrightarrow>
            scan_once fp JValue (iterencode fr (Suc l) x @ rest) = Some (x, rest)"
      using PList.IH ex by blast
    have heads: "\<And>x. x \<in> set xs \<Longrightarrow> \<exists>c r. iterencode fr (Suc l) x = c # r \<and> \<not> json_ws c"
      using iterencode_head [OF ex] by blast
    have arr: "scan_once fp JArray ?J = Some (PList xs, rest)"
      using False elems heads by (rule scan_array_items)
    from False obtain y ys where xs: "xs = y # ys"
      by (cases xs) auto
    from iterencode_head [OF ex, of y "Suc l"] xs obtain c r
      where h: "iterencode fr (Suc l) y = c # r" "\<not> json_ws c" "c \<noteq> CHR '']''"
      by auto
    obtain J' where J: "?J = c # J'"
      by (simp add: xs join_Cons h)
    have sk: "skip_ws (newline_indent (Suc l) @ ?J) = c # J'"
      by (subst skip_ws_newline_indent, subst J, rule skip_ws_token [OF h(2)])
    from arr J have arr': "scan_once fp JArray (c # J') = Some (PList xs, rest)"
      by simp
    from False h(3) sk arr' show ?thesis
      by (subst scan_once.simps) (simp add: quote_def)
  qed
next
  case (PDict kvs)
  show ?case
  proof (cases "kvs = []")
    case True
    have "skip_ws (CHR ''}'' # rest) = CHR ''}'' # rest"
      by (simp add: skip_ws_token json_ws_def)
    with True show ?thesis
      by (subst scan_once.simps) (simp add: quote_def)
  next
    case False
    let ?J = "join (CHR '','' # newline_indent (Suc l))
              (map (\<lambda>kv. encode_basestring_ascii (fst kv) @ CHR '':'' # CHR '' '' # iterencode fr (Suc l) (snd kv)) kvs)
            @ newline_indent l @ CHR ''}'' # rest"
    from PDict.prems(1) have ex: "\<And>kv. kv \<in> set kvs \<Longrightarrow> json_exact fr fp (snd kv)"
      and dist: "distinct (map fst kvs)"
      by (simp_all add: list_all_iff)
    have elems: "\<And>kv rest. kv \<in> set kvs \<Longrightarrow> after_value rest \<Longrightarrow>
            scan_once fp JValue (iterencode fr (Suc l) (snd kv) @ rest) = Some (snd kv, rest)"
    proof -
      fix kv rest
      assume kv: "kv \<in> set kvs" and r: "after_value rest"
      have "snd kv \<in> Basic_BNFs.snds kv"
        by (cases kv) simp
      from PDict.IH [OF kv this ex [OF kv] r]
      show "scan_once fp JValue (iterencode fr (Suc l) (snd kv) @ rest) = Some (snd kv, rest)" .
    qed
    have heads: "\<And>kv. kv \<in> set kvs \<Longrightarrow>
            \<exists>c r. iterencode fr (Suc l) (snd kv) = c # r \<and> \<not> json_ws c"
      using iterencode_head [OF ex] by blast
    have obj: "scan_once fp JObject ?J = Some (PDict kvs, rest)"
      using False elems heads by (rule scan_object_pairs)
    from False obtain y ys where kvs: "kvs = y # ys"
      by (cases kvs) auto
    obtain J' where J: "?J = quote # J'"
      by (simp add: kvs join_Cons encode_basestring_ascii_def)
    have sk: "skip_ws (newline_indent (Suc l) @ ?J) = quote # J'"
      by (subst skip_ws_newline_indent, subst J, rule skip_ws_token) simp
    from obj J have obj': "scan_once fp JObject (quote # J') = Some (PDict kvs, rest)"
      by simp
    have q: "quote \<noteq> CHR ''}''"
      by (simp add: quote_def)
    from False q sk obj' dict_of_pairs_distinct [OF dist] show ?thesis
      by (subst scan_once.simps) (simp add: quote_def)
  qed
qed

lemma json_loads_json_dumps:
  "json_exact fr fp v \<Longrightarrow> json_loads fp (json_dumps fr v) = Some v"
proof -
  assume ex: "json_exact fr fp v"
  from iterencode_head [OF ex, of 0] obtain c r where h: "iterencode fr 0 v = c # r" "\<not> json_ws c"
    by blast
  have nil: "after_value []"
    by (simp add: after_value_def)
  from scan_once_iterencode [OF ex nil, of 0]
  have "scan_once fp JValue (iterencode fr 0 v) = Some (v, [])"
    by simp
  moreover from h have "skip_ws (iterencode fr 0 v) = iterencode fr 0 v"
    by (simp add: skip_ws_token)
  ultimately show ?thesis
    by (simp add: json_loads_def json_dumps_def skip_ws_def)
qed

subsection \<open>The export gate of the Gradio interface\<close>

text \<open>
  Claim C10. \<^verbatim>\<open>export_research_results\<close> returns the fixed text
  \<^verbatim>\<open>No research results to export.\<close> exactly when the final answer is empty or begins
  with \<^verbatim>\<open>Please enter\<close> or with \<^verbatim>\<open>Research failed\<close>, the two in-band messages of
  \<^verbatim>\<open>conduct_research\<close>; otherwise the report contains each of the four sections it was
  given, unchanged, as a contiguous part of its text.
\<close>

theorem export_research_results_gate:
  "(export_research_results now final_answer ps isum qs = ''No research results to export.'')
     = (final_answer = [] \<or> py_startswith final_answer ''Please enter''
          \<or> py_startswith final_answer ''Research failed'')
   \<and> (\<not> (final_answer = [] \<or> py_startswith final_answer ''Please enter''
          \<or> py_startswith final_answer ''Research failed'') \<longrightarrow>
        sublist final_answer (export_research_results now final_answer ps isum qs)
      \<and> sublist ps (export_research_results now final_answer ps isum qs)
      \<and> sublist isum (export_research_results now final_answer ps isum qs)
      \<and> sublist qs (export_research_results now final_answer ps isum qs))"
proof (cases "final_answer = [] \<or> py_startswith final_answer ''Please enter''
          \<or> py_startswith final_answer ''Research failed''")
  case True
  then show ?thesis
    by (simp add: export_research_results_def)
next
  case False
  then have body: "export_research_results now final_answer ps isum qs =
      ''# AI Research Agent - Research Report'' @ nl @ nl
           @ ''Generated on: '' @ now @ nl @ nl
           @ ''## Final Answer'' @ nl @ nl
           @ final_answer @ nl @ nl
           @ ps @ nl @ nl
           @ isum @ nl @ nl
           @ qs @ nl @ nl
           @ ''---'' @ nl @ nl
           @ ''*This report was generated by the AI Research Agent - Phase 5 User Experience*'' @ nl"
    by (simp add: export_research_results_def)
  have ne: "export_research_results now final_answer ps isum qs \<noteq> ''No research results to export.''"
    unfolding body by simp
  have s1: "sublist final_answer (export_research_results now final_answer ps isum qs)"
    unfolding body by (rule sublist_here | rule sublist_skip)+
  have s2: "sublist ps (export_research_results now final_answer ps isum qs)"
    unfolding body by (rule sublist_here | rule sublist_skip)+
  have s3: "sublist isum (export_research_results now final_answer ps isum qs)"
    unfolding body by (rule sublist_here | rule sublist_skip)+
  have s4: "sublist qs (export_research_results now final_answer ps isum qs)"
    unfolding body by (rule sublist_here | rule sublist_skip)+
  from False ne s1 s2 s3 s4 show ?thesis by simp
qed

theorem export_research_results_gate_witness:
  "export_research_results ''2025-01-01 12:00:00'' ''Entanglement is a correlation.'' ''P'' ''I'' ''Q''
     \<noteq> ''No research results to export.''
   \<and> sublist ''Entanglement is a correlation.''
        (export_research_results ''2025-01-01 12:00:00'' ''Entanglement is a correlation.'' ''P'' ''I'' ''Q'')
   \<and> sublist ''P'' (export_research_results ''2025-01-01 12:00:00'' ''Entanglement is a correlation.'' ''P'' ''I'' ''Q'')
   \<and> sublist ''I'' (export_research_results ''2025-01-01 12:00:00'' ''Entanglement is a correlation.'' ''P'' ''I'' ''Q'')
   \<and> sublist ''Q'' (export_research_results ''2025-01-01 12:00:00'' ''Entanglement is a correlation.'' ''P'' ''I'' ''Q'')
   \<and> export_research_results ''2025-01-01 12:00:00'' ''Research failed: timeout'' ''P'' ''I'' ''Q''
        = ''No research results to export.''"
proof -
  have a: "\<not> (''Entanglement is a correlation.'' = [] \<or> py_startswith ''Entanglement is a correlation.'' ''Please enter''
          \<or> py_startswith ''Entanglement is a correlation.'' ''Research failed'')"
    by (simp add: py_startswith_def)
  have b: "py_startswith ''Research failed: timeout'' ''Research failed''"
    by (simp add: py_startswith_def)
  from a b export_research_results_gate [of "''2025-01-01 12:00:00''" "''Entanglement is a correlation.''" "''P''" "''I''" "''Q''"]
    export_research_results_gate [of "''2025-01-01 12:00:00''" "''Research failed: timeout''" "''P''" "''I''" "''Q''"]
  show ?thesis by blast
qed

subsection \<open>Blank questions\<close>

text \<open>
  Claim C8, as amended. A question that is empty or only white space after trimming is
  rejected before the agent is created or invoked and before anything is stored. The
  Gradio \<^verbatim>\<open>conduct_research\<close> returns, in band, the message
  \<^verbatim>\<open>Please enter a research question.\<close> with three empty texts and leaves its state
  (agent, history, invocation log) as it was. The Streamlit \<^verbatim>\<open>run\<close> leaves the session
  state as it was and takes the branch that draws the research stored before, if there
  is one; with none stored it does nothing. No exception is raised for the question: the
  source has no \<^verbatim>\<open>InvalidInputError\<close>.
\<close>

theorem blank_question_rejected:
  assumes "py_strip question = []"
  shows "conduct_research create_agent now rp tt question s
           = (Inr (PStr ''Please enter a research question.'', [], [], []), s)
       \<and> agent_calls (snd (conduct_research create_agent now rp tt question s)) = agent_calls s
       \<and> research_history (snd (conduct_research create_agent now rp tt question s)) = research_history s
       \<and> snd (run create_agent now render start_research question t) = t
       \<and> fst (run create_agent now render start_research question t)
           = show_current_research render (st_current_research t)
       \<and> (st_current_research t = None \<longrightarrow>
            run create_agent now render start_research question t = (Inr (), t))"
  using assms by (simp add: conduct_research_def run_def show_current_research_def)

theorem blank_question_rejected_witness:
  "py_strip [CHR 0x20, CHR 0xA0, CHR 0x09, CHR 0x85] = []
   \<and> conduct_research (Inr (\<lambda>st. Inr (PDict []))) ''2025-01-01T12:00:00'' (\<lambda>v. []) (\<lambda>t. t)
        [CHR 0x20, CHR 0xA0, CHR 0x09, CHR 0x85]
        \<lparr>agent = None, research_history = [], agent_calls = []\<rparr>
      = (Inr (PStr ''Please enter a research question.'', [], [], []),
         \<lparr>agent = None, research_history = [], agent_calls = []\<rparr>)
   \<and> run (Inr (\<lambda>st. Inr (PDict []))) ''2025-01-01T12:00:00'' (\<lambda>result question. Inr ()) True
        [CHR 0x20, CHR 0xA0, CHR 0x09, CHR 0x85]
        \<lparr>st_research_history = [], st_current_research = None, st_errors = [], st_agent_calls = []\<rparr>
      = (Inr (), \<lparr>st_research_history = [], st_current_research = None, st_errors = [], st_agent_calls = []\<rparr>)
   \<and> snd (run (Inr (\<lambda>st. Inr (PDict []))) ''2025-01-01T12:00:00'' (\<lambda>result question. Inr ()) True ''   ''
        \<lparr>st_research_history = [research_record ''q1'' (PDict []) ''t1'' (PStr ''N/A'')],
         st_current_research = Some (research_record ''q1'' (PDict []) ''t1'' (PStr ''N/A'')),
         st_errors = [], st_agent_calls = [initial_state ''q1'']\<rparr>)
      = \<lparr>st_research_history = [research_record ''q1'' (PDict []) ''t1'' (PStr ''N/A'')],
         st_current_research = Some (research_record ''q1'' (PDict []) ''t1'' (PStr ''N/A'')),
         st_errors = [], st_agent_calls = [initial_state ''q1'']\<rparr>"
proof -
  have blank: "py_strip [CHR 0x20, CHR 0xA0, CHR 0x09, CHR 0x85] = []"
    by (simp add: py_strip_def py_isspace_def)
  have blanks: "py_strip ''   '' = []"
    by (simp add: py_strip_def py_isspace_def)
  have none: "st_current_research
      \<lparr>st_research_history = [], st_current_research = None, st_errors = [], st_agent_calls = []\<rparr> = None"
    by simp
  from blank none blank_question_rejected [OF blank,
      where s = "\<lparr>agent = None, research_history = [], agent_calls = []\<rparr>"
        and t = "\<lparr>st_research_history = [], st_current_research = None, st_errors = [], st_agent_calls = []\<rparr>"]
    blank_question_rejected [OF blanks,
      where t = "\<lparr>st_research_history = [research_record ''q1'' (PDict []) ''t1'' (PStr ''N/A'')],
         st_current_research = Some (research_record ''q1'' (PDict []) ''t1'' (PStr ''N/A'')),
         st_errors = [], st_agent_calls = [initial_state ''q1'']\<rparr>"]
  show ?thesis
    by blast
qed

text \<open>
  Claim C8 as stated fails: on the question of three blanks \<^verbatim>\<open>conduct_research\<close> does
  not fail with an error, it returns normally with the prompt as its first component.
\<close>

theorem blank_question_counterexample:
  "fst (conduct_research (Inr (\<lambda>st. Inr (PDict []))) ''2025-01-01T12:00:00'' (\<lambda>v. []) (\<lambda>t. t) ''   ''
        \<lparr>agent = None, research_history = [], agent_calls = []\<rparr>)
     = Inr (PStr ''Please enter a research question.'', [], [], [])
   \<and> (\<forall>e. fst (conduct_research (Inr (\<lambda>st. Inr (PDict []))) ''2025-01-01T12:00:00'' (\<lambda>v. []) (\<lambda>t. t) ''   ''
        \<lparr>agent = None, research_history = [], agent_calls = []\<rparr>) \<noteq> Inl e)"
  by (simp add: conduct_research_def py_strip_def py_isspace_def)

subsection \<open>Exceptions of the agent\<close>

text \<open>
  Claim C9. When the agent's \<^verbatim>\<open>invoke\<close> raises (an instance of \<^verbatim>\<open>Exception\<close>, which
  \<^verbatim>\<open>except Exception\<close> catches), the exception does not leave the front end. The Gradio
  \<^verbatim>\<open>conduct_research\<close> returns the failed outcome
  \<^verbatim>\<open>("Research failed: " + str(e), "", "", "")\<close>, stores no history record, and the export
  treats that outcome as no result. The Streamlit \<^verbatim>\<open>run_research_with_progress\<close> shows
  the same message with \<^verbatim>\<open>st.error\<close> and returns \<^verbatim>\<open>None\<close>, after which \<^verbatim>\<open>run\<close> returns
  normally without a history record. The message is built from \<^verbatim>\<open>str(e)\<close> alone.
\<close>

theorem agent_exception_caught:
  assumes "py_strip question \<noteq> []"
    and "create_agent = Inr a"
    and "agent s = None \<or> agent s = Some a"
    and "a (initial_state question) = Inl e"
  shows "fst (conduct_research create_agent now rp tt question s)
           = Inr (PStr (''Research failed: '' @ str_exc e), [], [], [])
       \<and> research_history (snd (conduct_research create_agent now rp tt question s)) = research_history s
       \<and> export_research_results now' (''Research failed: '' @ str_exc e) ps isum qs
           = ''No research results to export.''
       \<and> run_research_with_progress create_agent question t
           = (None, t\<lparr>st_agent_calls := st_agent_calls t @ [initial_state question],
                      st_errors := st_errors t @ [''Research failed: '' @ str_exc e]\<rparr>)
       \<and> fst (run create_agent now render True question t) = Inr ()
       \<and> st_research_history (snd (run create_agent now render True question t)) = st_research_history t
       \<and> st_errors (snd (run create_agent now render True question t))
           = st_errors t @ [''Research failed: '' @ str_exc e]"
proof -
  from assms(2,3) obtain s1 where init: "initialize_agent create_agent s = (Inr a, s1)"
      and hist: "research_history s1 = research_history s"
    by (auto simp: initialize_agent_def)
  from assms(1,4) init hist
  have g: "fst (conduct_research create_agent now rp tt question s)
           = Inr (PStr (''Research failed: '' @ str_exc e), [], [], [])"
      "research_history (snd (conduct_research create_agent now rp tt question s)) = research_history s"
    by (simp_all add: conduct_research_def research_failed_def Let_def)
  have x: "export_research_results now' (''Research failed: '' @ str_exc e) ps isum qs
           = ''No research results to export.''"
    by (simp add: export_research_results_def py_startswith_def)
  from assms(2,4) have r: "run_research_with_progress create_agent question t
           = (None, t\<lparr>st_agent_calls := st_agent_calls t @ [initial_state question],
                      st_errors := st_errors t @ [''Research failed: '' @ str_exc e]\<rparr>)"
    by (simp add: run_research_with_progress_def Let_def)
  from assms(1) r have u: "fst (run create_agent now render True question t) = Inr ()"
      "st_research_history (snd (run create_agent now render True question t)) = st_research_history t"
      "st_errors (snd (run create_agent now render True question t))
           = st_errors t @ [''Research failed: '' @ str_exc e]"
    by (simp_all add: run_def)
  from g x r u show ?thesis by simp
qed

theorem agent_exception_caught_witness:
  "py_strip ''What is quantum entanglement?'' \<noteq> []
   \<and> fst (conduct_research (Inr (\<lambda>st. Inl (Raise AgentInvocationError ''connection refused'')))
            ''2025-01-01T12:00:00'' (\<lambda>v. []) (\<lambda>t. t) ''What is quantum entanglement?''
            \<lparr>agent = None, research_history = [], agent_calls = []\<rparr>)
      = Inr (PStr ''Research failed: connection refused'', [], [], [])
   \<and> research_history (snd (conduct_research (Inr (\<lambda>st. Inl (Raise AgentInvocationError ''connection refused'')))
            ''2025-01-01T12:00:00'' (\<lambda>v. []) (\<lambda>t. t) ''What is quantum entanglement?''
            \<lparr>agent = None, research_history = [], agent_calls = []\<rparr>)) = []
   \<and> st_errors (snd (run (Inr (\<lambda>st. Inl (Raise AgentInvocationError ''connection refused'')))
            ''2025-01-01T12:00:00'' (\<lambda>result question. Inr ()) True ''What is quantum entanglement?''
            \<lparr>st_research_history = [], st_current_research = None, st_errors = [], st_agent_calls = []\<rparr>))
      = [''Research failed: connection refused'']"
proof -
  have q: "py_strip ''What is quantum entanglement?'' \<noteq> []"
    by (simp add: py_strip_def py_isspace_def)
  have a: "(\<lambda>st::pyval. Inl (Raise AgentInvocationError ''connection refused'') :: py_error + pyval)
             (initial_state ''What is quantum entanglement?'')
           = Inl (Raise AgentInvocationError ''connection refused'')"
    by simp
  have n: "agent \<lparr>agent = None, research_history = [], agent_calls = []\<rparr> = None
           \<or> agent \<lparr>agent = None, research_history = [], agent_calls = []\<rparr>
              = Some (\<lambda>st. Inl (Raise AgentInvocationError ''connection refused''))"
    by simp
  from q agent_exception_caught [OF q refl n a,
      where now = "''2025-01-01T12:00:00''" and rp = "\<lambda>v. []" and tt = "\<lambda>t. t"
        and render = "\<lambda>result question. Inr ()"
        and t = "\<lparr>st_research_history = [], st_current_research = None, st_errors = [], st_agent_calls = []\<rparr>"]
  show ?thesis by simp
qed

subsection \<open>The quality radar\<close>





subsection \<open>The recent history\<close>

text \<open>
  Claim C3, as amended. The history of the Gradio interface holds the records in the
  order in which \<^verbatim>\<open>conduct_research\<close> appended them, each with its question, result, time
  and quality score. \<^verbatim>\<open>get_research_history\<close> lists the last five of them, or all of them
  when there are no more than five, in that order: the oldest record of the window
  first, numbered 1, the most recent one last. On an empty history it answers
  \<^verbatim>\<open>No research history available.\<close> It raises nothing.
\<close>

theorem recent_history_oldest_first:
  assumes "research_history s = map (\<lambda>(q, res, ts, qs). research_record q res ts qs) recs"
  shows "get_research_history rp s =
     Inr (if recs = [] then ''No research history available.''
          else ''## Recent Research History'' @ nl @ nl
               @ concat (map (\<lambda>(i, (q, res, ts, qs)).
                    ''### Research '' @ str_nat i @ nl
                    @ ''- **Question:** '' @ q @ nl
                    @ ''- **Quality Score:** '' @ py_str rp qs @ nl
                    @ ''- **Timestamp:** '' @ ts @ nl @ nl)
                  (List.enumerate 1
                     (if length recs \<le> 5 then recs else drop (length recs - 5) recs))))"
proof (cases "recs = []")
  case True
  with assms show ?thesis
    by (simp add: get_research_history_def)
next
  case False
  have w: "py_slice_last 5 (research_history s)
      = map (\<lambda>(q, res, ts, qs). research_record q res ts qs)
          (if length recs \<le> 5 then recs else drop (length recs - 5) recs)"
    unfolding assms by (simp add: py_slice_last_def drop_map)
  from False assms have ne: "research_history s \<noteq> []"
    by simp
  from False ne show ?thesis
    unfolding get_research_history_def w
    by (simp only: if_False history_lines_records append_assoc)
qed

theorem recent_history_oldest_first_witness:
  "get_research_history (\<lambda>v. [])
     \<lparr>agent = None,
      research_history =
        [research_record ''q1'' (PDict []) ''t1'' (PInt 7),
         research_record ''q2'' (PDict []) ''t2'' (PStr ''N/A''),
         research_record ''q3'' (PDict []) ''t3'' (PInt 8),
         research_record ''q4'' (PDict []) ''t4'' (PInt 9),
         research_record ''q5'' (PDict []) ''t5'' (PInt 6),
         research_record ''q6'' (PDict []) ''t6'' (PInt 5)],
      agent_calls = []\<rparr>
   = Inr (''## Recent Research History'' @ nl @ nl
          @ ''### Research 1'' @ nl @ ''- **Question:** q2'' @ nl
          @ ''- **Quality Score:** N/A'' @ nl @ ''- **Timestamp:** t2'' @ nl @ nl
          @ ''### Research 2'' @ nl @ ''- **Question:** q3'' @ nl
          @ ''- **Quality Score:** 8'' @ nl @ ''- **Timestamp:** t3'' @ nl @ nl
          @ ''### Research 3'' @ nl @ ''- **Question:** q4'' @ nl
          @ ''- **Quality Score:** 9'' @ nl @ ''- **Timestamp:** t4'' @ nl @ nl
          @ ''### Research 4'' @ nl @ ''- **Question:** q5'' @ nl
          @ ''- **Quality Score:** 6'' @ nl @ ''- **Timestamp:** t5'' @ nl @ nl
          @ ''### Research 5'' @ nl @ ''- **Question:** q6'' @ nl
          @ ''- **Quality Score:** 5'' @ nl @ ''- **Timestamp:** t6'' @ nl @ nl)
   \<and> get_research_history (\<lambda>v. [])
     \<lparr>agent = None,
      research_history = [research_record ''q1'' (PDict []) ''t1'' (PInt 7)],
      agent_calls = []\<rparr>
   = Inr (''## Recent Research History'' @ nl @ nl
          @ ''### Research 1'' @ nl @ ''- **Question:** q1'' @ nl
          @ ''- **Quality Score:** 7'' @ nl @ ''- **Timestamp:** t1'' @ nl @ nl)"
proof -
  let ?recs = "[(''q1'', PDict [], ''t1'', PInt 7), (''q2'', PDict [], ''t2'', PStr ''N/A''),
                (''q3'', PDict [], ''t3'', PInt 8), (''q4'', PDict [], ''t4'', PInt 9),
                (''q5'', PDict [], ''t5'', PInt 6), (''q6'', PDict [], ''t6'', PInt 5)]"
  let ?s = "\<lparr>agent = None,
      research_history =
        [research_record ''q1'' (PDict []) ''t1'' (PInt 7),
         research_record ''q2'' (PDict []) ''t2'' (PStr ''N/A''),
         research_record ''q3'' (PDict []) ''t3'' (PInt 8),
         research_record ''q4'' (PDict []) ''t4'' (PInt 9),
         research_record ''q5'' (PDict []) ''t5'' (PInt 6),
         research_record ''q6'' (PDict []) ''t6'' (PInt 5)],
      agent_calls = []\<rparr>"
  let ?one = "\<lparr>agent = None,
      research_history = [research_record ''q1'' (PDict []) ''t1'' (PInt 7)],
      agent_calls = []\<rparr>"
  have a: "research_history ?s = map (\<lambda>(q, res, ts, qs). research_record q res ts qs) ?recs"
    by simp
  have b: "research_history ?one
      = map (\<lambda>(q, res, ts, qs). research_record q res ts qs) [(''q1'', PDict [], ''t1'', PInt 7)]"
    by simp
  from recent_history_oldest_first [OF a, of "\<lambda>v. []"] recent_history_oldest_first [OF b, of "\<lambda>v. []"]
  show ?thesis
    by (simp add: enumerate_eq_zip upt_rec str_int_def str_nat.simps digit_char_def)
qed

text \<open>
  Claim C3 as stated fails: after three records with the times \<open>t1 < t2 < t3\<close>,
  \<^verbatim>\<open>get_research_history\<close> lists them from the oldest, numbered 1, to the most recent,
  numbered 3, and not the most recent first. The sidebar of the Streamlit interface
  draws the same three records in the same order, the oldest first, under titles that
  count down from the length of the history.
\<close>

theorem recent_history_counterexample:
  "get_research_history (\<lambda>v. [])
        \<lparr>agent = None,
         research_history =
           [research_record ''q1'' (PDict []) ''t1'' (PStr ''N/A''),
            research_record ''q2'' (PDict []) ''t2'' (PStr ''N/A''),
            research_record ''q3'' (PDict []) ''t3'' (PStr ''N/A'')],
         agent_calls = []\<rparr>
     = Inr (''## Recent Research History'' @ nl @ nl
            @ ''### Research 1'' @ nl @ ''- **Question:** q1'' @ nl
            @ ''- **Quality Score:** N/A'' @ nl @ ''- **Timestamp:** t1'' @ nl @ nl
            @ ''### Research 2'' @ nl @ ''- **Question:** q2'' @ nl
            @ ''- **Quality Score:** N/A'' @ nl @ ''- **Timestamp:** t2'' @ nl @ nl
            @ ''### Research 3'' @ nl @ ''- **Question:** q3'' @ nl
            @ ''- **Quality Score:** N/A'' @ nl @ ''- **Timestamp:** t3'' @ nl @ nl)
   \<and> get_research_history (\<lambda>v. [])
        \<lparr>agent = None,
         research_history =
           [research_record ''q1'' (PDict []) ''t1'' (PStr ''N/A''),
            research_record ''q2'' (PDict []) ''t2'' (PStr ''N/A''),
            research_record ''q3'' (PDict []) ''t3'' (PStr ''N/A'')],
         agent_calls = []\<rparr>
     \<noteq> Inr (''## Recent Research History'' @ nl @ nl
            @ ''### Research 1'' @ nl @ ''- **Question:** q3'' @ nl
            @ ''- **Quality Score:** N/A'' @ nl @ ''- **Timestamp:** t3'' @ nl @ nl
            @ ''### Research 2'' @ nl @ ''- **Question:** q2'' @ nl
            @ ''- **Quality Score:** N/A'' @ nl @ ''- **Timestamp:** t2'' @ nl @ nl
            @ ''### Research 3'' @ nl @ ''- **Question:** q1'' @ nl
            @ ''- **Quality Score:** N/A'' @ nl @ ''- **Timestamp:** t1'' @ nl @ nl)
   \<and> sidebar_recent_research (\<lambda>v. [])
           [research_record ''q1'' (PDict []) ''t1'' (PStr ''N/A''),
            research_record ''q2'' (PDict []) ''t2'' (PStr ''N/A''),
            research_record ''q3'' (PDict []) ''t3'' (PStr ''N/A'')]
     = Inr [(''Research 3'', [''**Question:** q1...'', ''**Quality Score:** N/A'', ''**Date:** t1'']),
            (''Research 2'', [''**Question:** q2...'', ''**Quality Score:** N/A'', ''**Date:** t2'']),
            (''Research 1'', [''**Question:** q3...'', ''**Quality Score:** N/A'', ''**Date:** t3''])]"
  by (simp add: py_slice_last_def get_research_history_def research_record_def
      sidebar_recent_research_def str_nat.simps str_int_def digit_char_def py_slice_to_def nl_def)

subsection \<open>The process summary\<close>

text \<open>
  Claim C2, as amended. For a result whose plan is a list and whose findings are a list
  of dictionaries (either may be missing), the process summary of \<^verbatim>\<open>conduct_research\<close>
  is the heading, the plan numbered from 1, the number of findings, and, on the line
  \<^verbatim>\<open>External sources consulted\<close>, the number of findings whose \<^verbatim>\<open>external_research\<close> entry
  is present and true as a condition (a non-empty list of snippets). The field
  \<^verbatim>\<open>sources_used\<close> is not read.
\<close>

theorem process_summary_counts_external_research:
  assumes "py_get result ''research_plan'' (PList []) = Inr (PList steps)"
    and "py_get result ''findings'' (PList []) = Inr (PList fs)"
    and "\<forall>f \<in> set fs. \<exists>kvs. f = PDict kvs"
  shows "process_summary rp result =
     Inr (''## Research Process'' @ nl @ nl @ ''### Research Plan:'' @ nl
          @ concat (map (\<lambda>(i, step). str_nat i @ ''. '' @ py_str rp step @ nl)
                        (zip [1 ..< 1 + length steps] steps))
          @ nl @ ''### Findings Summary:'' @ nl
          @ ''- Total research steps completed: '' @ str_nat (length fs) @ nl
          @ ''- External sources consulted: ''
          @ str_nat (length (filter (\<lambda>f. case py_get f ''external_research'' PNone of
                                             Inl e \<Rightarrow> False | Inr v \<Rightarrow> py_truthy v) fs)) @ nl)"
  using assms(1,2) count_external_dicts [OF assms(3)]
  by (simp add: process_summary_def plan_lines_closed)

theorem process_summary_counts_external_research_witness:
  "process_summary (\<lambda>v. [])
     (PDict [(''research_plan'', PList [PStr ''Define terms'', PStr ''Survey literature'']),
             (''findings'', PList
                [PDict [(''step'', PInt 0), (''external_research'', PList [PStr ''arXiv: Bell tests'']),
                        (''sources_used'', PDict [(''external_sources'', PInt 0)])],
                 PDict [(''step'', PInt 1), (''external_research'', PList []),
                        (''sources_used'', PDict [(''external_sources'', PInt 3)])]])])
   = Inr (''## Research Process'' @ nl @ nl @ ''### Research Plan:'' @ nl
          @ ''1. Define terms'' @ nl @ ''2. Survey literature'' @ nl
          @ nl @ ''### Findings Summary:'' @ nl
          @ ''- Total research steps completed: 2'' @ nl
          @ ''- External sources consulted: 1'' @ nl)"
proof -
  let ?fs = "[PDict [(''step'', PInt 0), (''external_research'', PList [PStr ''arXiv: Bell tests'']),
                        (''sources_used'', PDict [(''external_sources'', PInt 0)])],
                 PDict [(''step'', PInt 1), (''external_research'', PList []),
                        (''sources_used'', PDict [(''external_sources'', PInt 3)])]]"
  let ?steps = "[PStr ''Define terms'', PStr ''Survey literature'']"
  let ?r = "PDict [(''research_plan'', PList ?steps), (''findings'', PList ?fs)]"
  have a: "py_get ?r ''research_plan'' (PList []) = Inr (PList ?steps)"
    by simp
  have b: "py_get ?r ''findings'' (PList []) = Inr (PList ?fs)"
    by simp
  have c: "\<forall>f \<in> set ?fs. \<exists>kvs. f = PDict kvs"
    by simp
  have u: "[1 ..< 1 + length ?steps] = [1, 2]"
    by (simp add: upt_rec)
  from process_summary_counts_external_research [OF a b c, of "\<lambda>v. []"] u show ?thesis
    by (simp add: str_nat.simps digit_char_def)
qed

text \<open>
  Claim C2 as stated fails on its own example: for the result with one finding whose
  \<^verbatim>\<open>sources_used.external_sources\<close> is 2, and which has no \<^verbatim>\<open>external_research\<close>, the
  summary reports \<^verbatim>\<open>External sources consulted: 0\<close>.
\<close>

theorem process_summary_counterexample:
  "process_summary (\<lambda>v. [])
     (PDict [(''final_answer'', PStr ''...''),
             (''research_plan'', PList [PStr ''Define terms'', PStr ''Survey literature'']),
             (''findings'', PList
                [PDict [(''step'', PInt 0), (''step_description'', PStr ''Define terms''),
                        (''sources_used'', PDict [(''memory_basic'', PInt 1), (''memory_advanced'', PInt 0),
                                                  (''external_sources'', PInt 2)]),
                        (''analysis'', PStr ''KEY_FINDINGS: entanglement is... NEW_CONCEPTS: none'')]]),
             (''hypotheses'', PList [])])
   = Inr (''## Research Process'' @ nl @ nl @ ''### Research Plan:'' @ nl
          @ ''1. Define terms'' @ nl @ ''2. Survey literature'' @ nl
          @ nl @ ''### Findings Summary:'' @ nl
          @ ''- Total research steps completed: 1'' @ nl
          @ ''- External sources consulted: 0'' @ nl)"
  by (simp add: process_summary_def str_nat.simps digit_char_def)

subsection \<open>The quality summary\<close>

text \<open>
  Claim C1. The quality summary of \<^verbatim>\<open>conduct_research\<close> takes the text \<^verbatim>\<open>'N/A'\<close> for a
  missing \<^verbatim>\<open>confidence_assessment\<close> and formats it with \<^verbatim>\<open>.2f\<close>, which no text accepts.
  So on a result whose quality assessment has an \<^verbatim>\<open>overall_quality_score\<close> and no
  \<^verbatim>\<open>confidence_assessment\<close> the summary raises a \<^verbatim>\<open>ValueError\<close>, whatever the interpreter's
  texts \<open>rp\<close> and \<open>tt\<close>; \<^verbatim>\<open>conduct_research\<close>, which has stored the record by then, catches
  it and answers \<^verbatim>\<open>Research failed\<close> in place of its four texts.
\<close>

theorem quality_summary_missing_confidence:
  "qualitySummary rp tt
     (PDict [(''final_answer'', PStr ''...''),
             (''quality_assessment'', PDict [(''overall_quality_score'', PInt 7)])])
     = Inl (Raise ValueError (''Unknown format code '' @ sq @ ''f'' @ sq @ '' for object of type '' @ sq @ ''str'' @ sq))
   \<and> conduct_research
        (Inr (\<lambda>st. Inr (PDict [(''final_answer'', PStr ''...''),
                                 (''quality_assessment'', PDict [(''overall_quality_score'', PInt 7)])])))
        ''2025-01-01T12:00:00'' rp tt ''What is quantum entanglement?''
        \<lparr>agent = None, research_history = [], agent_calls = []\<rparr>
     = (Inr (PStr (''Research failed: Unknown format code '' @ sq @ ''f'' @ sq
                   @ '' for object of type '' @ sq @ ''str'' @ sq), [], [], []),
        \<lparr>agent = Some (\<lambda>st. Inr (PDict [(''final_answer'', PStr ''...''),
                                 (''quality_assessment'', PDict [(''overall_quality_score'', PInt 7)])])),
         research_history =
           [research_record ''What is quantum entanglement?''
              (PDict [(''final_answer'', PStr ''...''),
                      (''quality_assessment'', PDict [(''overall_quality_score'', PInt 7)])])
              ''2025-01-01T12:00:00'' (PInt 7)],
         agent_calls = [initial_state ''What is quantum entanglement?'']\<rparr>)"
  by (simp add: qualitySummary_def quality_summary_def conduct_research_def initialize_agent_def
      py_strip_def py_isspace_def quality_score_of_def format_results_def process_summary_def
      intelligence_summary_def research_failed_def str_nat.simps digit_char_def Let_def)

text \<open>
  What the summary does by design: when \<^verbatim>\<open>quality_assessment\<close> is missing, empty or
  otherwise false as a condition, it is the heading alone and no field is rendered; and
  when the confidence can be formatted, a missing \<^verbatim>\<open>overall_quality_score\<close> is rendered
  as \<^verbatim>\<open>N/A\<close> and a missing \<^verbatim>\<open>total_findings\<close>, \<^verbatim>\<open>external_sources_used\<close> or
  \<^verbatim>\<open>source_diversity\<close> as \<^verbatim>\<open>0\<close>.
\<close>

lemma quality_summary_absent:
  assumes "py_get result ''quality_assessment'' (PDict []) = Inr quality_assessment"
    and "\<not> py_truthy quality_assessment"
  shows "qualitySummary rp tt result = Inr (''## Quality Assessment'' @ nl @ nl)"
  using assms by (simp add: qualitySummary_def quality_summary_def)

lemma quality_summary_present:
  assumes "py_get result ''quality_assessment'' (PDict []) = Inr (PDict kvs)"
    and "kvs \<noteq> []"
    and "map_of kvs ''confidence_assessment'' = Some c"
    and "format_2f c = Inr confidence"
    and "py_get (PDict kvs) ''quality_indicators'' (PDict []) = Inr (PDict indicators)"
  shows "qualitySummary rp tt result =
              Inr (indicator_lines tt indicators
                (''## Quality Assessment'' @ nl @ nl
                 @ ''- **Overall Quality Score:** ''
                 @ py_str rp (case map_of kvs ''overall_quality_score'' of None \<Rightarrow> PStr ''N/A'' | Some v \<Rightarrow> v)
                 @ ''/10'' @ nl
                 @ ''- **Confidence Level:** '' @ confidence @ nl
                 @ ''- **Total Findings:** ''
                 @ py_str rp (case map_of kvs ''total_findings'' of None \<Rightarrow> PInt 0 | Some v \<Rightarrow> v) @ nl
                 @ ''- **External Sources Used:** ''
                 @ py_str rp (case map_of kvs ''external_sources_used'' of None \<Rightarrow> PInt 0 | Some v \<Rightarrow> v) @ nl
                 @ ''- **Source Diversity:** ''
                 @ py_str rp (case map_of kvs ''source_diversity'' of None \<Rightarrow> PInt 0 | Some v \<Rightarrow> v) @ nl
                 @ nl @ ''### Quality Indicators:'' @ nl))"
proof -
  from assms(5) have i: "(case map_of kvs ''quality_indicators'' of None \<Rightarrow> PDict [] | Some v \<Rightarrow> v)
        = PDict indicators"
    by simp
  from assms(1-4) i show ?thesis
    by (simp add: qualitySummary_def quality_summary_def)
qed

subsection \<open>The key findings of the Markdown report\<close>




subsection \<open>The JSON export\<close>

text \<open>
  Claim C4, as amended. \<^verbatim>\<open>export_as_json\<close> serialises the result alone: the text is the
  same for every question and every time, which enter the file name only. For a result
  that JSON represents exactly (\<^verbatim>\<open>None\<close>, booleans, integers, faithful floats, strings,
  lists and dictionaries of such), parsing the exported text gives the result back, whole
  and in order, and so the same final answer, research plan, number of findings and
  quality score.
\<close>

theorem json_export_round_trip:
  assumes "json_exact fr fp result"
  shows "fst (export_as_json fr now result question) = fst (export_as_json fr now' result question')
       \<and> json_loads fp (fst (export_as_json fr now result question)) = Some result
       \<and> (\<forall>parsed. json_loads fp (fst (export_as_json fr now result question)) = Some parsed \<longrightarrow>
              py_get parsed ''final_answer'' d = py_get result ''final_answer'' d
            \<and> py_get parsed ''research_plan'' d = py_get result ''research_plan'' d
            \<and> bind_err (py_get parsed ''findings'' d) py_len = bind_err (py_get result ''findings'' d) py_len
            \<and> quality_score_of parsed = quality_score_of result)"
  using json_loads_json_dumps [OF assms] by (simp add: export_as_json_def)

theorem json_export_round_trip_witness:
  "json_exact (\<lambda>x. ''0.8'') (\<lambda>t. Some (8 / 10))
     (PDict [(''final_answer'', PStr ''...''),
             (''research_plan'', PList [PStr ''Define terms'', PStr ''Survey literature'']),
             (''findings'', PList [PDict [(''step'', PInt 0), (''step_description'', PStr ''Define terms'')]]),
             (''hypotheses'', PList []),
             (''quality_assessment'', PDict [(''overall_quality_score'', PInt 7),
                                             (''confidence_assessment'', PFloat (8 / 10)),
                                             (''quality_indicators'', PDict [(''has_external_validation'', PBool True)])])])
   \<and> json_loads (\<lambda>t. Some (8 / 10))
        (fst (export_as_json (\<lambda>x. ''0.8'') ''20250101_120000''
          (PDict [(''final_answer'', PStr ''...''),
             (''research_plan'', PList [PStr ''Define terms'', PStr ''Survey literature'']),
             (''findings'', PList [PDict [(''step'', PInt 0), (''step_description'', PStr ''Define terms'')]]),
             (''hypotheses'', PList []),
             (''quality_assessment'', PDict [(''overall_quality_score'', PInt 7),
                                             (''confidence_assessment'', PFloat (8 / 10)),
                                             (''quality_indicators'', PDict [(''has_external_validation'', PBool True)])])])
          ''What is quantum entanglement?''))
     = Some (PDict [(''final_answer'', PStr ''...''),
             (''research_plan'', PList [PStr ''Define terms'', PStr ''Survey literature'']),
             (''findings'', PList [PDict [(''step'', PInt 0), (''step_description'', PStr ''Define terms'')]]),
             (''hypotheses'', PList []),
             (''quality_assessment'', PDict [(''overall_quality_score'', PInt 7),
                                             (''confidence_assessment'', PFloat (8 / 10)),
                                             (''quality_indicators'', PDict [(''has_external_validation'', PBool True)])])])"
proof -
  let ?fr = "\<lambda>x::real. ''0.8''"
  let ?fp = "\<lambda>t::string. Some (8 / 10 :: real)"
  let ?r = "PDict [(''final_answer'', PStr ''...''),
             (''research_plan'', PList [PStr ''Define terms'', PStr ''Survey literature'']),
             (''findings'', PList [PDict [(''step'', PInt 0), (''step_description'', PStr ''Define terms'')]]),
             (''hypotheses'', PList []),
             (''quality_assessment'', PDict [(''overall_quality_score'', PInt 7),
                                             (''confidence_assessment'', PFloat (8 / 10)),
                                             (''quality_indicators'', PDict [(''has_external_validation'', PBool True)])])]"
  have num: "parse_number ?fp (?fr (8 / 10) @ rest) = Some (PFloat (8 / 10), rest)"
    if "after_value rest" for rest
  proof -
    from that have "takeWhile is_digit rest = []" and "scan_exp rest = []"
      by (cases rest; auto simp: after_value_def is_digit_def scan_exp_def split: list.splits)+
    then show ?thesis
      by (simp add: parse_number_def scan_int_def scan_frac_def is_digit_def Let_def)
  qed
  have "float_faithful ?fr ?fp (8 / 10)"
    unfolding float_faithful_def
  proof (intro conjI allI impI)
    show "\<exists>c r. ?fr (8 / 10) = c # r \<and> (is_digit c \<or> c = CHR ''-'')"
      by (simp add: is_digit_def)
  next
    fix rest
    assume "after_value rest"
    then show "parse_number ?fp (?fr (8 / 10) @ rest) = Some (PFloat (8 / 10), rest)"
      by (rule num)
  qed
  then have ex: "json_exact ?fr ?fp ?r"
    by simp
  from ex json_export_round_trip [OF ex, of "''20250101_120000''" "''What is quantum entanglement?''"]
  show ?thesis
    by blast
qed

text \<open>
  Claim C4 as stated fails: the exported text holds no metadata. For the result with the
  final answer \<^verbatim>\<open>...\<close> the text is the object with that one entry, whatever the question
  and the time; neither occurs in it.
\<close>

theorem json_export_counterexample:
  "fst (export_as_json (\<lambda>x. []) ''20250101_120000'' (PDict [(''final_answer'', PStr ''...'')])
          ''What is quantum entanglement?'')
     = ''{'' @ nl @ ''  '' @ [quote] @ ''final_answer'' @ [quote] @ '': '' @ [quote] @ ''...'' @ [quote]
       @ nl @ ''}''
   \<and> fst (export_as_json (\<lambda>x. []) ''20250101_120000'' (PDict [(''final_answer'', PStr ''...'')])
          ''What is quantum entanglement?'')
     = fst (export_as_json (\<lambda>x. []) ''20260202_130000'' (PDict [(''final_answer'', PStr ''...'')])
          ''Another question'')
   \<and> \<not> sublist ''What is quantum entanglement?''
        (fst (export_as_json (\<lambda>x. []) ''20250101_120000'' (PDict [(''final_answer'', PStr ''...'')])
          ''What is quantum entanglement?''))
   \<and> \<not> sublist ''20250101''
        (fst (export_as_json (\<lambda>x. []) ''20250101_120000'' (PDict [(''final_answer'', PStr ''...'')])
          ''What is quantum entanglement?''))"
  by (simp add: export_as_json_def json_dumps_def encode_basestring_ascii_def escape_char_def
      quote_def backslash_def newline_indent_def nl_def numeral_2_eq_2 sublist_code)

end
